theory Spec2Isabelle
  imports Complex_Main
begin

section \<open>Static structure refinement: \<open>calc_refine_structure_static.py\<close>\<close>

text \<open>
  The development embeds the two functions \<open>calc_cij\<close> and \<open>quick_a_Cij\<close> of
  \<open>src/iprPy/calculations/refine_structure_static/calc_refine_structure_static.py\<close>.
  Python floats are modelled as real numbers: every comparison and every arithmetic
  operation of the source is kept, rounding is not modelled. The reals have no \<open>inf\<close> and
  no \<open>nan\<close>, which numpy gives for a division by zero: where \<open>calc_cij\<close> divides by zero the
  model says so (the outcome \<open>NonFinite\<close>) and follows the run no further.
\<close>

subsection \<open>Boxes and systems (the part of atomman the code relies on)\<close>

type_synonym vec3 = "real \<times> real \<times> real"
type_synonym mat3 = "vec3 \<times> vec3 \<times> vec3"
type_synonym matrix = "real list list"

text \<open>\<open>atomman.Box\<close>: three box vectors, the rows of \<open>vects\<close>.\<close>

record Box =
  vects :: mat3

text \<open>The lattice parameters \<open>box.a\<close>, \<open>box.b\<close>, \<open>box.c\<close> are the lengths of the rows.\<close>

definition vec_len :: "vec3 \<Rightarrow> real" where
  "vec_len v = (case v of (x, y, z) \<Rightarrow> sqrt (x * x + y * y + z * z))"

definition box_a :: "Box \<Rightarrow> real" where
  "box_a B = (case vects B of (r0, r1, r2) \<Rightarrow> vec_len r0)"

definition box_b :: "Box \<Rightarrow> real" where
  "box_b B = (case vects B of (r0, r1, r2) \<Rightarrow> vec_len r1)"

definition box_c :: "Box \<Rightarrow> real" where
  "box_c B = (case vects B of (r0, r1, r2) \<Rightarrow> vec_len r2)"

text \<open>\<open>am.Box(a=.., b=.., c=..)\<close>: the orthorhombic box with the given edge lengths.\<close>

definition Box_abc :: "real \<Rightarrow> real \<Rightarrow> real \<Rightarrow> Box" where
  "Box_abc la lb lc = \<lparr>vects = ((la, 0, 0), (0, lb, 0), (0, 0, lc))\<rparr>"

text \<open>
  \<open>atomman.System\<close>: a box and the atoms. The atoms are opaque here and stand for the
  box-relative atom basis, which \<open>box_set(..., scale=True)\<close> leaves as it is.
\<close>

record 'at System =
  box :: Box
  atoms :: 'at

definition box_set_vects :: "mat3 \<Rightarrow> 'at System \<Rightarrow> 'at System" where
  "box_set_vects v s = s\<lparr>box := \<lparr>vects = v\<rparr>\<rparr>"

subsection \<open>\<open>numpy.allclose\<close>\<close>

text \<open>
  \<open>np.allclose(x, y, rtol, atol)\<close> holds when \<open>|x - y| \<le> atol + rtol * |y|\<close> for every
  component; \<open>atol\<close> defaults to \<open>1e-8\<close> and \<open>rtol\<close> to \<open>1e-5\<close>.
\<close>

definition default_atol :: real where
  "default_atol = 1 / 10 ^ 8"

definition default_rtol :: real where
  "default_rtol = 1 / 10 ^ 5"

definition isclose :: "real \<Rightarrow> real \<Rightarrow> real \<Rightarrow> real \<Rightarrow> bool" where
  "isclose rtol atol x y = (\<bar>x - y\<bar> \<le> atol + rtol * \<bar>y\<bar>)"

definition allclose_vec :: "real \<Rightarrow> real \<Rightarrow> vec3 \<Rightarrow> vec3 \<Rightarrow> bool" where
  "allclose_vec rtol atol u v =
     (case u of (u0, u1, u2) \<Rightarrow> case v of (v0, v1, v2) \<Rightarrow>
        isclose rtol atol u0 v0 \<and> isclose rtol atol u1 v1 \<and> isclose rtol atol u2 v2)"

definition allclose :: "real \<Rightarrow> real \<Rightarrow> mat3 \<Rightarrow> mat3 \<Rightarrow> bool" where
  "allclose rtol atol A B =
     (case A of (a0, a1, a2) \<Rightarrow> case B of (b0, b1, b2) \<Rightarrow>
        allclose_vec rtol atol a0 b0 \<and> allclose_vec rtol atol a1 b1
        \<and> allclose_vec rtol atol a2 b2)"

text \<open>\<open>np.allclose(M, 0.0)\<close> on a matrix, with the default tolerances.\<close>

definition allclose_zero :: "matrix \<Rightarrow> bool" where
  "allclose_zero M = list_all (list_all (\<lambda>x. isclose default_rtol default_atol x 0)) M"

text \<open>Every entry is exactly zero.\<close>

definition all_zero :: "matrix \<Rightarrow> bool" where
  "all_zero M = list_all (list_all (\<lambda>x. x = 0)) M"

subsection \<open>Errors, the store and the collaborators\<close>

text \<open>
  Every exception of the source is a \<open>RuntimeError\<close> told apart by its message; an
  exception of the simulation run and an index out of range are kept beside them.
  \<open>NonFinite\<close> is no exception of the source: numpy answers a division by zero with
  \<open>inf\<close> or \<open>nan\<close> and a warning, and the code goes on with that value, which the model
  does not follow.
\<close>

datatype error =
    LammpsError string      \<comment> \<open>\<open>lmp.run\<close> failed\<close>
  | IndexError              \<comment> \<open>a thermo column is shorter than the index read\<close>
  | ZeroElasticConstants    \<comment> \<open>\<open>Divergence of elastic constants to <= 0\<close>\<close>
  | SingularC               \<comment> \<open>\<open>singular C\<close>\<close>
  | NonPositiveBox          \<comment> \<open>\<open>Divergence of box dimensions to <= 0\<close>\<close>
  | DivergenceBox           \<comment> \<open>\<open>Divergence of box dimensions\<close>\<close>
  | DivergenceEcoh          \<comment> \<open>\<open>Divergence: cohesive energy is 0\<close>\<close>
  | NonConvergence          \<comment> \<open>\<open>Failed to converge after 100 cycles\<close>\<close>
  | NonFinite               \<comment> \<open>no exception: a division by zero gave \<open>inf\<close> or \<open>nan\<close>\<close>

text \<open>The thermo columns \<open>data.finds(..)\<close> of one LAMMPS run.\<close>

record thermo =
  Lx :: "real list"
  Ly :: "real list"
  Lz :: "real list"
  Xy :: "real list"
  Xz :: "real list"
  Yz :: "real list"
  Pxx :: "real list"
  Pyy :: "real list"
  Pzz :: "real list"
  Pxy :: "real list"
  Pxz :: "real list"
  Pyz :: "real list"
  peatom :: "real list"

text \<open>
  What the code takes from outside: the LAMMPS run on the script generated for a system
  (the \<open>n\<close>-th run may depend on \<open>n\<close>, so scripted and stateful runs are covered; \<open>Inl\<close>
  when writing the script or the run raises), the
  compliance matrix \<open>ElasticConstants.Sij\<close> (\<open>None\<close> when the inversion raises) and the
  conversion factors of the pressure and energy units.
\<close>

record 'at env =
  run :: "nat \<Rightarrow> 'at System \<Rightarrow> string + thermo"
  Sij :: "matrix \<Rightarrow> matrix option"
  p_unit :: real
  e_unit :: real

text \<open>
  Systems are Python objects, so they live in a store: an address is an index into
  \<open>heap\<close>. \<open>calls\<close> counts the invocations of \<open>calc_cij\<close>; it is not a variable of the
  source.
\<close>

type_synonym addr = nat

record 'at rstate =
  heap :: "'at System list"
  calls :: nat

definition deepcopy :: "'at rstate \<Rightarrow> addr \<Rightarrow> addr \<times> 'at rstate" where
  "deepcopy st p = (length (heap st), st\<lparr>heap := heap st @ [heap st ! p]\<rparr>)"

definition box_set :: "'at rstate \<Rightarrow> addr \<Rightarrow> mat3 \<Rightarrow> 'at rstate" where
  "box_set st p v = st\<lparr>heap := (heap st)[p := box_set_vects v (heap st ! p)]\<rparr>"

text \<open>The dictionary \<open>calc_cij\<close> returns; \<open>cell_new\<close> is a reference.\<close>

record results =
  elastic_C :: matrix
  stress :: mat3
  ecoh :: real
  cell_new :: addr

text \<open>The keyword arguments of \<open>quick_a_Cij\<close>.\<close>

record params =
  p_xx :: real
  p_yy :: real
  p_zz :: real
  tol :: real
  diverge_scale :: real

subsection \<open>\<open>calc_cij\<close>\<close>

definition set_in_units :: "real list \<Rightarrow> real \<Rightarrow> real list" where
  "set_in_units xs u = map (\<lambda>x. x * u) xs"

text \<open>The indices the function reads before its first own \<open>raise\<close>.\<close>

definition thermo_complete :: "thermo \<Rightarrow> bool" where
  "thermo_complete d =
     (3 \<le> length (Lx d) \<and> 5 \<le> length (Ly d) \<and> 7 \<le> length (Lz d)
      \<and> 9 \<le> length (Yz d) \<and> 11 \<le> length (Xz d) \<and> 13 \<le> length (Xy d)
      \<and> 13 \<le> length (Pxx d) \<and> 13 \<le> length (Pyy d) \<and> 13 \<le> length (Pzz d)
      \<and> 13 \<le> length (Pyz d) \<and> 13 \<le> length (Pxz d) \<and> 13 \<le> length (Pxy d))"

text \<open>
  The six strains; \<open>None\<close> when a box length divided by is zero (numpy: \<open>inf\<close> or \<open>nan\<close>).
\<close>

definition strains :: "thermo \<Rightarrow> real list option" where
  "strains d =
     (if Lx d ! 0 = 0 \<or> Ly d ! 0 = 0 \<or> Lz d ! 0 = 0 then None
      else Some
        [ (Lx d ! 2 - Lx d ! 1) / Lx d ! 0,
          (Ly d ! 4 - Ly d ! 3) / Ly d ! 0,
          (Lz d ! 6 - Lz d ! 5) / Lz d ! 0,
          (Yz d ! 8 - Yz d ! 7) / Lz d ! 0,
          (Xz d ! 10 - Xz d ! 9) / Lz d ! 0,
          (Xy d ! 12 - Xy d ! 11) / Ly d ! 0 ])"

definition delta_stress :: "real \<Rightarrow> thermo \<Rightarrow> nat \<Rightarrow> real list" where
  "delta_stress pu d i =
     (let pxx = set_in_units (Pxx d) pu; pyy = set_in_units (Pyy d) pu;
          pzz = set_in_units (Pzz d) pu; pxy = set_in_units (Pxy d) pu;
          pxz = set_in_units (Pxz d) pu; pyz = set_in_units (Pyz d) pu
      in [ pxx ! (2 * i + 1) - pxx ! (2 * i + 2),
           pyy ! (2 * i + 1) - pyy ! (2 * i + 2),
           pzz ! (2 * i + 1) - pzz ! (2 * i + 2),
           pyz ! (2 * i + 1) - pyz ! (2 * i + 2),
           pxz ! (2 * i + 1) - pxz ! (2 * i + 2),
           pxy ! (2 * i + 1) - pxy ! (2 * i + 2) ])"

text \<open>
  The first loop: row \<open>i\<close> of \<open>cij\<close> is \<open>delta_stress / strains[i]\<close>; \<open>None\<close> when a strain
  is zero or is not there (numpy: a row of \<open>inf\<close> or \<open>nan\<close>).
\<close>

definition raw_cij :: "real \<Rightarrow> thermo \<Rightarrow> matrix option" where
  "raw_cij pu d =
     (case strains d of
        None \<Rightarrow> None
      | Some e \<Rightarrow>
          if 0 \<in> set e then None
          else Some (map (\<lambda>i. map (\<lambda>x. x / e ! i) (delta_stress pu d i)) [0..<6]))"

text \<open>
  The second loop, in place on the array:
  \<open>cij[i,j] = cij[j,i] = (cij[i,j] + cij[j,i]) / 2\<close> for \<open>j < i < 6\<close>.
\<close>

definition mat_set :: "matrix \<Rightarrow> nat \<Rightarrow> nat \<Rightarrow> real \<Rightarrow> matrix" where
  "mat_set M i j v = M[i := (M ! i)[j := v]]"

definition sym_assign :: "nat \<Rightarrow> nat \<Rightarrow> matrix \<Rightarrow> matrix" where
  "sym_assign i j M =
     (let v = (M ! i ! j + M ! j ! i) / 2 in mat_set (mat_set M i j v) j i v)"

definition symmetrize :: "matrix \<Rightarrow> matrix" where
  "symmetrize M = fold (\<lambda>i. fold (sym_assign i) [0..<i]) [0..<6] M"

definition stress_of :: "real \<Rightarrow> thermo \<Rightarrow> mat3" where
  "stress_of pu d =
     (let pxx = set_in_units (Pxx d) pu; pyy = set_in_units (Pyy d) pu;
          pzz = set_in_units (Pzz d) pu; pxy = set_in_units (Pxy d) pu;
          pxz = set_in_units (Pxz d) pu; pyz = set_in_units (Pyz d) pu
      in ((- 1 * pxx ! 0, - 1 * pxy ! 0, - 1 * pxz ! 0),
          (- 1 * pxy ! 0, - 1 * pyy ! 0, - 1 * pyz ! 0),
          (- 1 * pxz ! 0, - 1 * pyz ! 0, - 1 * pzz ! 0)))"

definition stress_xx :: "mat3 \<Rightarrow> real" where
  "stress_xx s = (case s of ((xx, xy, xz), r1, r2) \<Rightarrow> xx)"

definition stress_yy :: "mat3 \<Rightarrow> real" where
  "stress_yy s = (case s of (r0, (yx, yy, yz), r2) \<Rightarrow> yy)"

definition stress_zz :: "mat3 \<Rightarrow> real" where
  "stress_zz s = (case s of (r0, r1, (zx, zy, zz)) \<Rightarrow> zz)"

text \<open>
  \<open>new_dim = old_dim / (S[i,0]*s_xx + S[i,1]*s_yy + S[i,2]*s_zz + 1)\<close>; \<open>None\<close> when the
  divisor is zero. The divisor is then \<open>+0.0\<close> (a sum that ends in \<open>+ 1\<close>) and the edge
  divided is a length, so numpy gives \<open>+inf\<close> or \<open>nan\<close>, for which \<open><= 0\<close> is \<open>False\<close>.
\<close>

definition new_dim :: "matrix \<Rightarrow> nat \<Rightarrow> real \<Rightarrow> real \<Rightarrow> real \<Rightarrow> real \<Rightarrow> real option"
  where
  "new_dim S i s_xx s_yy s_zz old =
     (let dv = S ! i ! 0 * s_xx + S ! i ! 1 * s_yy + S ! i ! 2 * s_zz + 1
      in if dv = 0 then None else Some (old / dv))"

definition nonpositive :: "real option \<Rightarrow> bool" where
  "nonpositive x = (case x of None \<Rightarrow> False | Some v \<Rightarrow> v \<le> 0)"

definition calc_cij ::
  "'at env \<Rightarrow> params \<Rightarrow> 'at rstate \<Rightarrow> addr \<Rightarrow> (error + results) \<times> 'at rstate" where
  "calc_cij E prm st cell =
     (let st1 = st\<lparr>calls := Suc (calls st)\<rparr> in
      case run E (calls st) (heap st ! cell) of
        Inl msg \<Rightarrow> (Inl (LammpsError msg), st1)
      | Inr d \<Rightarrow>
          if \<not> thermo_complete d then (Inl IndexError, st1)
          else
            (case raw_cij (p_unit E) d of
               None \<Rightarrow> (Inl NonFinite, st1)
             | Some raw \<Rightarrow>
                 let cij = symmetrize raw in
                 if allclose_zero cij then (Inl ZeroElasticConstants, st1)
                 else
                   (case Sij E cij of
                      None \<Rightarrow> (Inl SingularC, st1)
                    | Some S \<Rightarrow>
                        let str = stress_of (p_unit E) d;
                            s_xx = stress_xx str + p_xx prm;
                            s_yy = stress_yy str + p_yy prm;
                            s_zz = stress_zz str + p_zz prm;
                            new_a = new_dim S 0 s_xx s_yy s_zz (box_a (box (heap st ! cell)));
                            new_b = new_dim S 1 s_xx s_yy s_zz (box_b (box (heap st ! cell)));
                            new_c = new_dim S 2 s_xx s_yy s_zz (box_c (box (heap st ! cell)))
                        in
                        if nonpositive new_a \<or> nonpositive new_b \<or> nonpositive new_c
                        then (Inl NonPositiveBox, st1)
                        else
                          (case new_a of
                             None \<Rightarrow> (Inl NonFinite, st1)
                           | Some la \<Rightarrow>
                          (case new_b of
                             None \<Rightarrow> (Inl NonFinite, st1)
                           | Some lb \<Rightarrow>
                          (case new_c of
                             None \<Rightarrow> (Inl NonFinite, st1)
                           | Some lc \<Rightarrow>
                               let newbox = Box_abc la lb lc;
                                   (cn, st2) = deepcopy st1 cell;
                                   st3 = box_set st2 cn (vects newbox)
                               in (case set_in_units (peatom d) (e_unit E) of
                                     [] \<Rightarrow> (Inl IndexError, st3)
                                   | e # es \<Rightarrow>
                                       (Inr \<lparr>elastic_C = cij, stress = str, ecoh = e,
                                              cell_new = cn\<rparr>,
                                        st3))))))))"

subsection \<open>\<open>quick_a_Cij\<close>\<close>

text \<open>What one pass through the body of the \<open>for\<close> loop does.\<close>

datatype step =
    Break results          \<comment> \<open>\<open>converged = True; break\<close>\<close>
  | Raise error            \<comment> \<open>an exception leaves the function (or the model stops: \<open>NonFinite\<close>)\<close>
  | Continue addr addr     \<comment> \<open>the new \<open>cell_current\<close> and \<open>cell_old\<close>\<close>

definition diverged :: "real \<Rightarrow> real \<Rightarrow> real \<Rightarrow> bool" where
  "diverged ds x0 x = (x < x0 / ds \<or> x > x0 * ds)"

definition average_box :: "Box \<Rightarrow> Box \<Rightarrow> Box" where
  "average_box bn bo =
     Box_abc ((box_a bn + box_a bo) / 2) ((box_b bn + box_b bo) / 2)
       ((box_c bn + box_c bo) / 2)"

definition cycle_body ::
  "'at env \<Rightarrow> params \<Rightarrow> addr \<Rightarrow> addr \<Rightarrow> addr option \<Rightarrow> 'at rstate \<Rightarrow> step \<times> 'at rstate"
  where
  "cycle_body E prm cell cell_current cell_old st =
     (case calc_cij E prm st cell_current of
        (Inl e, st1) \<Rightarrow> (Raise e, st1)
      | (Inr res, st1) \<Rightarrow>
          let bnew = box (heap st1 ! cell_new res);
              bcur = box (heap st1 ! cell_current);
              b0 = box (heap st1 ! cell)
          in
          if allclose (tol prm) default_atol (vects bnew) (vects bcur) then (Break res, st1)
          else if (case cell_old of None \<Rightarrow> False
                   | Some co \<Rightarrow>
                       allclose (tol prm) default_atol (vects bnew) (vects (box (heap st1 ! co))))
          then
            (let bx = average_box bnew (box (heap st1 ! the cell_old));
                 st2 = box_set st1 cell_current (vects bx)
             in case calc_cij E prm st2 cell_current of
                  (Inl e, st3) \<Rightarrow> (Raise e, st3)
                | (Inr res2, st3) \<Rightarrow> (Break res2, st3))
          else if diverged (diverge_scale prm) (box_a b0) (box_a bnew) then
            (Raise DivergenceBox, st1)
          else if diverged (diverge_scale prm) (box_b b0) (box_b bnew) then
            (Raise DivergenceBox, st1)
          else if diverged (diverge_scale prm) (box_c b0) (box_c bnew) then
            (Raise DivergenceBox, st1)
          else if ecoh res = 0 then (Raise DivergenceEcoh, st1)
          else (Continue (cell_new res) cell_current, st1))"

text \<open>
  \<open>for cycle in xrange(n)\<close> followed by \<open>if converged: return results\<close>,
  \<open>else: raise RuntimeError('Failed to converge after 100 cycles')\<close>.
\<close>

fun cycles ::
  "'at env \<Rightarrow> params \<Rightarrow> addr \<Rightarrow> nat \<Rightarrow> addr \<Rightarrow> addr option \<Rightarrow> 'at rstate
     \<Rightarrow> (error + results) \<times> 'at rstate" where
  "cycles E prm cell 0 cell_current cell_old st = (Inl NonConvergence, st)"
| "cycles E prm cell (Suc n) cell_current cell_old st =
     (case cycle_body E prm cell cell_current cell_old st of
        (Break res, st') \<Rightarrow> (Inr res, st')
      | (Raise e, st') \<Rightarrow> (Inl e, st')
      | (Continue cn co, st') \<Rightarrow> cycles E prm cell n cn (Some co) st')"

text \<open>
  The caller's system is at address \<open>0\<close> of the store the function starts with;
  \<open>cell_current = deepcopy(cell)\<close> and \<open>cell_old = None\<close>.
\<close>

definition initial_state :: "'at System \<Rightarrow> 'at rstate" where
  "initial_state cell = \<lparr>heap = [cell], calls = 0\<rparr>"

definition quick_a_Cij ::
  "'at env \<Rightarrow> 'at System \<Rightarrow> params \<Rightarrow> (error + results) \<times> 'at rstate" where
  "quick_a_Cij E cell prm =
     (let (cell_current, st) = deepcopy (initial_state cell) 0
      in cycles E prm 0 100 cell_current None st)"

subsection \<open>The symmetrisation as the specification words it\<close>

definition is_6x6 :: "matrix \<Rightarrow> bool" where
  "is_6x6 M = (length M = 6 \<and> list_all (\<lambda>r. length r = 6) M)"

definition symmetric6 :: "matrix \<Rightarrow> bool" where
  "symmetric6 M = list_all (\<lambda>i. list_all (\<lambda>j. M ! i ! j = M ! j ! i) [0..<6]) [0..<6]"

text \<open>
  Follows the specification, not the loop: entry \<open>(i, j)\<close> is
  \<open>(raw[i][j] + raw[j][i]) / 2\<close>. It is compared with \<open>symmetrize\<close> below.
\<close>

definition symmetrized :: "matrix \<Rightarrow> matrix" where
  "symmetrized M = map (\<lambda>i. map (\<lambda>j. (M ! i ! j + M ! j ! i) / 2) [0..<6]) [0..<6]"

subsection \<open>The passes of the loop that went on\<close>

text \<open>
  \<open>iterate k\<close> runs the loop body \<open>k\<close> times from given values of \<open>cell_current\<close>,
  \<open>cell_old\<close> and the store, and gives the values after them when each of the \<open>k\<close>
  passes reached the final \<open>else\<close> branch (\<open>None\<close> as soon as one pass left the loop).
\<close>

type_synonym 'at loopvars = "addr \<times> addr option \<times> 'at rstate"

fun iterate ::
  "'at env \<Rightarrow> params \<Rightarrow> addr \<Rightarrow> nat \<Rightarrow> 'at loopvars \<Rightarrow> 'at loopvars option" where
  "iterate E prm cell 0 v = Some v"
| "iterate E prm cell (Suc k) (cell_current, cell_old, st) =
     (case cycle_body E prm cell cell_current cell_old st of
        (Continue cn co, st') \<Rightarrow> iterate E prm cell k (cn, Some co, st')
      | (Break res, st') \<Rightarrow> None
      | (Raise e, st') \<Rightarrow> None)"

text \<open>The variables on entry to the loop of \<open>quick_a_Cij\<close>, and after \<open>k\<close> passes.\<close>

definition start :: "'at System \<Rightarrow> 'at loopvars" where
  "start cell = (case deepcopy (initial_state cell) 0 of (cc, st) \<Rightarrow> (cc, None, st))"

definition reached :: "'at env \<Rightarrow> 'at System \<Rightarrow> params \<Rightarrow> nat \<Rightarrow> 'at loopvars option" where
  "reached E cell prm k = iterate E prm 0 k (start cell)"

text \<open>The three tests of one pass, on the store the evaluation left.\<close>

definition test_A :: "params \<Rightarrow> 'at rstate \<Rightarrow> results \<Rightarrow> addr \<Rightarrow> bool" where
  "test_A prm st res cell_current =
     allclose (tol prm) default_atol (vects (box (heap st ! cell_new res)))
       (vects (box (heap st ! cell_current)))"

definition test_B :: "params \<Rightarrow> 'at rstate \<Rightarrow> results \<Rightarrow> addr option \<Rightarrow> bool" where
  "test_B prm st res cell_old =
     (case cell_old of None \<Rightarrow> False
      | Some co \<Rightarrow>
          allclose (tol prm) default_atol (vects (box (heap st ! cell_new res)))
            (vects (box (heap st ! co))))"

definition box_diverged :: "params \<Rightarrow> Box \<Rightarrow> Box \<Rightarrow> bool" where
  "box_diverged prm b0 bn =
     (diverged (diverge_scale prm) (box_a b0) (box_a bn)
      \<or> diverged (diverge_scale prm) (box_b b0) (box_b bn)
      \<or> diverged (diverge_scale prm) (box_c b0) (box_c bn))"

text \<open>What holds of the loop variables after \<open>k\<close> passes that went on.\<close>

definition loop_inv :: "'at System \<Rightarrow> nat \<Rightarrow> 'at loopvars \<Rightarrow> bool" where
  "loop_inv cell k v =
     (case v of (cc, co, st) \<Rightarrow>
        calls st = k \<and> 0 < cc \<and> cc < length (heap st) \<and> heap st ! 0 = cell
        \<and> (case co of None \<Rightarrow> k = 0 | Some p \<Rightarrow> 0 < k \<and> 0 < p \<and> p < cc))"

text \<open>No system that is in the store \<open>st\<close> differs in \<open>st'\<close>.\<close>

definition unchanged :: "'at rstate \<Rightarrow> 'at rstate \<Rightarrow> bool" where
  "unchanged st st' = (take (length (heap st)) (heap st') = heap st)"

subsection \<open>Scripted runs\<close>

text \<open>
  Concrete collaborators for running the code: thermo columns with unit strains and a
  diagonal unit stress response, whose baseline pressures are chosen so that the next
  box is a prescribed one, and the inverse of a diagonal matrix.
\<close>

definition alt13 :: "real list" where
  "alt13 = [1, 0, 1, 0, 1, 0, 1, 0, 1, 0, 1, 0, 1]"

definition pulse13 :: "real \<Rightarrow> nat \<Rightarrow> real list" where
  "pulse13 p0 k = (p0 # replicate 12 0)[k := 1]"

definition probe_thermo :: "real \<Rightarrow> real \<Rightarrow> real \<Rightarrow> real \<Rightarrow> thermo" where
  "probe_thermo px py pz e =
     \<lparr>Lx = alt13, Ly = alt13, Lz = alt13, Xy = alt13, Xz = alt13, Yz = alt13,
      Pxx = pulse13 px 1, Pyy = pulse13 py 3, Pzz = pulse13 pz 5,
      Pxy = pulse13 0 11, Pxz = pulse13 0 9, Pyz = pulse13 0 7, peatom = [e]\<rparr>"

definition ident6 :: matrix where
  "ident6 = [[1, 0, 0, 0, 0, 0], [0, 1, 0, 0, 0, 0], [0, 0, 1, 0, 0, 0],
             [0, 0, 0, 1, 0, 0], [0, 0, 0, 0, 1, 0], [0, 0, 0, 0, 0, 1]]"

definition diag_inverse :: "matrix \<Rightarrow> matrix option" where
  "diag_inverse M =
     (if list_all (\<lambda>i. list_all (\<lambda>j. if i = j then M ! i ! j \<noteq> 0 else M ! i ! j = 0) [0..<6])
           [0..<6]
      then Some (map (\<lambda>i. map (\<lambda>j. if i = j then 1 / M ! i ! j else 0) [0..<6]) [0..<6])
      else None)"

text \<open>
  \<open>scripted f\<close>: the \<open>n\<close>-th run, on system \<open>s\<close>, steers \<open>calc_cij\<close> to the box edges
  \<open>(ta, tb, tc)\<close> and reports the energy \<open>e\<close>, where \<open>f n s = (ta, tb, tc, e)\<close>.
\<close>

definition scripted_run ::
  "(nat \<Rightarrow> 'at System \<Rightarrow> real \<times> real \<times> real \<times> real) \<Rightarrow> nat \<Rightarrow> 'at System
     \<Rightarrow> string + thermo" where
  "scripted_run f n s =
     (case f n s of (ta, tb, tc, e) \<Rightarrow>
        Inr (probe_thermo (1 - box_a (box s) / ta) (1 - box_b (box s) / tb)
               (1 - box_c (box s) / tc) e))"

definition scripted ::
  "(nat \<Rightarrow> 'at System \<Rightarrow> real \<times> real \<times> real \<times> real) \<Rightarrow> 'at env" where
  "scripted f = \<lparr>run = scripted_run f, Sij = diag_inverse, p_unit = 1, e_unit = 1\<rparr>"

text \<open>The defaults of \<open>quick_a_Cij\<close>: zero target pressures, \<open>tol=1e-10\<close>, \<open>diverge_scale=3.\<close>\<close>

definition default_params :: params where
  "default_params = \<lparr>p_xx = 0, p_yy = 0, p_zz = 0, tol = 1 / 10 ^ 10, diverge_scale = 3\<rparr>"

definition cube :: "real \<Rightarrow> unit System" where
  "cube l = \<lparr>box = Box_abc l l l, atoms = ()\<rparr>"

text \<open>
  Scripts: every run steers to one cube; runs that alternate between the cubes of edge 3
  and 4; runs that go round the cubes of edge 3, 4 and 5; runs that drift from 3 to 8
  to 10.
\<close>

definition to_cube :: "real \<Rightarrow> real \<Rightarrow> nat \<Rightarrow> unit System \<Rightarrow> real \<times> real \<times> real \<times> real" where
  "to_cube l e n s = (l, l, l, e)"

definition alternating :: "nat \<Rightarrow> unit System \<Rightarrow> real \<times> real \<times> real \<times> real" where
  "alternating n s = (if box_a (box s) = 3 then (4, 4, 4, - 1) else (3, 3, 3, - 1))"

definition cycling :: "nat \<Rightarrow> unit System \<Rightarrow> real \<times> real \<times> real \<times> real" where
  "cycling n s =
     (if box_a (box s) = 3 then (4, 4, 4, - 1)
      else if box_a (box s) = 4 then (5, 5, 5, - 1) else (3, 3, 3, - 1))"

text \<open>What holds of the loop variables under the script \<open>cycling\<close>.\<close>

definition cycling_inv :: "unit loopvars \<Rightarrow> bool" where
  "cycling_inv v =
     (case v of (cc, co, st) \<Rightarrow>
        \<exists>x. (x = 3 \<or> x = 4 \<or> x = 5) \<and> 0 < cc \<and> cc < length (heap st)
           \<and> heap st ! 0 = cube 3 \<and> heap st ! cc = cube x
           \<and> (case co of None \<Rightarrow> True
               | Some p \<Rightarrow> p < length (heap st)
                   \<and> heap st ! p = cube (if x = 3 then 5 else x - 1)))"

definition drifting :: "nat \<Rightarrow> unit System \<Rightarrow> real \<times> real \<times> real \<times> real" where
  "drifting n s = (if box_a (box s) = 3 then (8, 8, 8, - 1) else (10, 10, 10, - 1))"

text \<open>
  More scripts: runs that go to and fro between the cubes of edge \<open>x\<close> and \<open>y\<close> and report
  the energy \<open>e\<close>; runs that go from the edge 3 to \<open>3 + 1.05e-8\<close> and then to
  \<open>3 + 2.5e-10\<close>.
\<close>

definition between :: "real \<Rightarrow> real \<Rightarrow> real \<Rightarrow> nat \<Rightarrow> unit System \<Rightarrow> real \<times> real \<times> real \<times> real"
  where
  "between x y e n s = (if box_a (box s) = x then (y, y, y, e) else (x, x, x, e))"

definition settling :: "nat \<Rightarrow> unit System \<Rightarrow> real \<times> real \<times> real \<times> real" where
  "settling n s =
     (if box_a (box s) = 3
      then (3 + 105 / 10 ^ 10, 3 + 105 / 10 ^ 10, 3 + 105 / 10 ^ 10, - 1)
      else (3 + 25 / 10 ^ 11, 3 + 25 / 10 ^ 11, 3 + 25 / 10 ^ 11, - 1))"

text \<open>
  Collaborators whose evaluation fails: a run with no stress response, an inversion that
  raises, and the alternating script with a run of LAMMPS that fails at the \<open>m\<close>-th call.
\<close>

definition flat_thermo :: thermo where
  "flat_thermo =
     \<lparr>Lx = alt13, Ly = alt13, Lz = alt13, Xy = alt13, Xz = alt13, Yz = alt13,
      Pxx = replicate 13 0, Pyy = replicate 13 0, Pzz = replicate 13 0,
      Pxy = replicate 13 0, Pxz = replicate 13 0, Pyz = replicate 13 0, peatom = [- 1]\<rparr>"

definition no_response :: "unit env" where
  "no_response = \<lparr>run = (\<lambda>n s. Inr flat_thermo), Sij = diag_inverse, p_unit = 1, e_unit = 1\<rparr>"

definition not_invertible :: "unit env" where
  "not_invertible = (scripted (to_cube 4 (- 1)))\<lparr>Sij := (\<lambda>M. None)\<rparr>"

definition failing_at :: "nat \<Rightarrow> unit env" where
  "failing_at m =
     (scripted alternating)
       \<lparr>run := (\<lambda>n s. if n = m then Inl ''no thermo data'' else scripted_run alternating n s)\<rparr>"

section \<open>Properties\<close>

subsection \<open>Symmetrisation\<close>

lemma upt_upto_6:
  "[0..<6] = [0, 1, 2, 3, 4, 5]" "[0..<5] = [0, 1, 2, 3, 4]" "[0..<4] = [0, 1, 2, 3]"
  "[0..<3] = [0, 1, 2]" "[0..<2] = [0, 1]" "[0..<1] = [0]"
  by (simp_all add: upt_rec numeral_eq_Suc)

lemma list_update_Cons_numeral:
  "(x # xs)[numeral k := y] = x # xs[pred_numeral k := y]"
  by (simp add: numeral_eq_Suc)

lemma length6E:
  assumes "length xs = 6"
  obtains x0 x1 x2 x3 x4 x5 where "xs = [x0, x1, x2, x3, x4, x5]"
  using assms by (auto simp: numeral_eq_Suc length_Suc_conv)

lemma symmetrize_rows:
  "symmetrize [[a0, a1, a2, a3, a4, a5], [b0, b1, b2, b3, b4, b5], [c0, c1, c2, c3, c4, c5],
               [d0, d1, d2, d3, d4, d5], [e0, e1, e2, e3, e4, e5], [f0, f1, f2, f3, f4, f5]]
   = symmetrized
              [[a0, a1, a2, a3, a4, a5], [b0, b1, b2, b3, b4, b5], [c0, c1, c2, c3, c4, c5],
               [d0, d1, d2, d3, d4, d5], [e0, e1, e2, e3, e4, e5], [f0, f1, f2, f3, f4, f5]]"
  by (simp add: symmetrize_def symmetrized_def sym_assign_def mat_set_def upt_upto_6
      list_update_Cons_numeral Let_def add.commute)

lemma symmetrize_eq_symmetrized:
  assumes "is_6x6 M"
  shows "symmetrize M = symmetrized M"
proof -
  from assms have l: "length M = 6" and r: "\<forall>r \<in> set M. length r = 6"
    by (simp_all add: is_6x6_def list_all_iff)
  from l obtain r0 r1 r2 r3 r4 r5 where M: "M = [r0, r1, r2, r3, r4, r5]"
    by (rule length6E)
  from r M have ls: "length r0 = 6" "length r1 = 6" "length r2 = 6" "length r3 = 6"
    "length r4 = 6" "length r5 = 6"
    by simp_all
  obtain a0 a1 a2 a3 a4 a5 where r0: "r0 = [a0, a1, a2, a3, a4, a5]"
    using ls(1) by (rule length6E)
  obtain b0 b1 b2 b3 b4 b5 where r1: "r1 = [b0, b1, b2, b3, b4, b5]"
    using ls(2) by (rule length6E)
  obtain c0 c1 c2 c3 c4 c5 where r2: "r2 = [c0, c1, c2, c3, c4, c5]"
    using ls(3) by (rule length6E)
  obtain d0 d1 d2 d3 d4 d5 where r3: "r3 = [d0, d1, d2, d3, d4, d5]"
    using ls(4) by (rule length6E)
  obtain e0 e1 e2 e3 e4 e5 where r4: "r4 = [e0, e1, e2, e3, e4, e5]"
    using ls(5) by (rule length6E)
  obtain f0 f1 f2 f3 f4 f5 where r5: "r5 = [f0, f1, f2, f3, f4, f5]"
    using ls(6) by (rule length6E)
  show ?thesis unfolding M r0 r1 r2 r3 r4 r5
    by (rule symmetrize_rows)
qed

lemma symmetrized_6x6: "is_6x6 (symmetrized M)"
  by (simp add: symmetrized_def is_6x6_def upt_upto_6)

lemma symmetrized_nth:
  "i < 6 \<Longrightarrow> j < 6 \<Longrightarrow> symmetrized M ! i ! j = (M ! i ! j + M ! j ! i) / 2"
  by (simp add: symmetrized_def)

lemma symmetrized_symmetric: "symmetric6 (symmetrized M)"
  by (simp add: symmetric6_def list_all_iff symmetrized_nth add.commute)

lemma symmetrized_idem: "symmetrized (symmetrized M) = symmetrized M"
  by (simp add: symmetrized_def[of "symmetrized M"] symmetrized_nth)
     (simp add: symmetrized_def add.commute)

text \<open>
  C8. For every raw 6x6 matrix, the in-place loop of \<open>calc_cij\<close> computes
  \<open>Cij[i][j] = Cij[j][i] = (raw[i][j] + raw[j][i]) / 2\<close>, its result is symmetric, and
  symmetrising twice gives the same matrix as symmetrising once.
\<close>

theorem symmetrize_symmetric_idempotent:
  assumes "is_6x6 M"
  shows "symmetrize M = symmetrized M \<and> symmetric6 (symmetrize M)
         \<and> symmetrize (symmetrize M) = symmetrize M"
proof -
  have e: "symmetrize M = symmetrized M"
    using assms by (rule symmetrize_eq_symmetrized)
  have "symmetrize (symmetrized M) = symmetrized (symmetrized M)"
    using symmetrized_6x6 by (rule symmetrize_eq_symmetrized)
  then show ?thesis
    by (simp add: e symmetrized_symmetric symmetrized_idem)
qed

theorem symmetrize_symmetric_idempotent_witness:
  "is_6x6 [[1, 2, 3, 4, 5, 6], [7, 8, 9, 10, 11, 12], [0, 1, 0, 1, 0, 1],
           [2, 4, 6, 8, 10, 12], [5, 5, 5, 5, 5, 5], [9, 7, 5, 3, 1, 0]]
   \<and> symmetrize [[1, 2, 3, 4, 5, 6], [7, 8, 9, 10, 11, 12], [0, 1, 0, 1, 0, 1],
           [2, 4, 6, 8, 10, 12], [5, 5, 5, 5, 5, 5], [9, 7, 5, 3, 1, 0]]
     = [[1, 9 / 2, 3 / 2, 3, 5, 15 / 2], [9 / 2, 8, 5, 7, 8, 19 / 2],
        [3 / 2, 5, 0, 7 / 2, 5 / 2, 3], [3, 7, 7 / 2, 8, 15 / 2, 15 / 2],
        [5, 8, 5 / 2, 15 / 2, 5, 3], [15 / 2, 19 / 2, 3, 15 / 2, 3, 0]]
   \<and> symmetric6 (symmetrize [[1, 2, 3, 4, 5, 6], [7, 8, 9, 10, 11, 12], [0, 1, 0, 1, 0, 1],
           [2, 4, 6, 8, 10, 12], [5, 5, 5, 5, 5, 5], [9, 7, 5, 3, 1, 0]])
   \<and> symmetrize (symmetrize [[1, 2, 3, 4, 5, 6], [7, 8, 9, 10, 11, 12], [0, 1, 0, 1, 0, 1],
           [2, 4, 6, 8, 10, 12], [5, 5, 5, 5, 5, 5], [9, 7, 5, 3, 1, 0]])
     = symmetrize [[1, 2, 3, 4, 5, 6], [7, 8, 9, 10, 11, 12], [0, 1, 0, 1, 0, 1],
           [2, 4, 6, 8, 10, 12], [5, 5, 5, 5, 5, 5], [9, 7, 5, 3, 1, 0]]"
proof -
  let ?M = "[[1, 2, 3, 4, 5, 6], [7, 8, 9, 10, 11, 12], [0, 1, 0, 1, 0, 1],
           [2, 4, 6, 8, 10, 12], [5, 5, 5, 5, 5, 5], [9, 7, 5, 3, 1, 0 :: real]]"
  have h: "is_6x6 ?M"
    by (simp add: is_6x6_def)
  have v: "symmetrized ?M
     = [[1, 9 / 2, 3 / 2, 3, 5, 15 / 2], [9 / 2, 8, 5, 7, 8, 19 / 2],
        [3 / 2, 5, 0, 7 / 2, 5 / 2, 3], [3, 7, 7 / 2, 8, 15 / 2, 15 / 2],
        [5, 8, 5 / 2, 15 / 2, 5, 3], [15 / 2, 19 / 2, 3, 15 / 2, 3, 0]]"
    by (simp add: symmetrized_def upt_upto_6)
  note t = symmetrize_symmetric_idempotent [OF h]
  have a: "symmetrize ?M
     = [[1, 9 / 2, 3 / 2, 3, 5, 15 / 2], [9 / 2, 8, 5, 7, 8, 19 / 2],
        [3 / 2, 5, 0, 7 / 2, 5 / 2, 3], [3, 7, 7 / 2, 8, 15 / 2, 15 / 2],
        [5, 8, 5 / 2, 15 / 2, 5, 3], [15 / 2, 19 / 2, 3, 15 / 2, 3, 0]]"
    using t [THEN conjunct1] v by (rule trans)
  from h a t show ?thesis
    by blast
qed

subsection \<open>Boxes\<close>

lemma vec_len_nonneg: "0 \<le> vec_len v"
  by (cases v) (simp add: vec_len_def)

lemma box_abc_dims:
  "box_a (Box_abc x y z) = \<bar>x\<bar>" "box_b (Box_abc x y z) = \<bar>y\<bar>" "box_c (Box_abc x y z) = \<bar>z\<bar>"
  by (simp_all add: box_a_def box_b_def box_c_def Box_abc_def vec_len_def)

lemma box_dims_nonneg: "0 \<le> box_a B" "0 \<le> box_b B" "0 \<le> box_c B"
  by (simp_all add: box_a_def box_b_def box_c_def vec_len_nonneg split: prod.splits)

lemma box_set_vects_box: "box (box_set_vects (vects B) s) = B"
  by (simp add: box_set_vects_def)

lemma box_set_vects_atoms: "atoms (box_set_vects v s) = atoms s"
  by (simp add: box_set_vects_def)

subsection \<open>\<open>calc_cij\<close> and the store\<close>

lemma calc_cij_calls: "calc_cij E prm st p = (r, st') \<Longrightarrow> calls st' = Suc (calls st)"
  by (auto simp add: calc_cij_def Let_def deepcopy_def box_set_def
      split: sum.splits option.splits list.splits if_splits)

lemma calc_cij_heap:
  "calc_cij E prm st p = (r, st') \<Longrightarrow>
     heap st' = heap st \<or> (\<exists>c. heap st' = heap st @ [c])"
  by (auto simp add: calc_cij_def Let_def deepcopy_def box_set_def
      split: sum.splits option.splits list.splits if_splits)

lemma calc_cij_Inr_heap:
  "calc_cij E prm st p = (Inr res, st') \<Longrightarrow>
     cell_new res = length (heap st) \<and> (\<exists>c. heap st' = heap st @ [c])"
  by (auto simp add: calc_cij_def Let_def deepcopy_def box_set_def
      split: sum.splits option.splits list.splits if_splits)

lemma calc_cij_errors:
  "calc_cij E prm st p = (Inl e, st') \<Longrightarrow>
     e \<noteq> NonConvergence \<and> e \<noteq> DivergenceBox \<and> e \<noteq> DivergenceEcoh"
  by (auto simp add: calc_cij_def Let_def deepcopy_def box_set_def
      split: sum.splits option.splits list.splits if_splits)

lemma heap_grows_nth:
  "heap st' = heap st \<or> (\<exists>c. heap st' = heap st @ [c]) \<Longrightarrow> p < length (heap st) \<Longrightarrow>
     heap st' ! p = heap st ! p \<and> p < length (heap st')"
  by (auto simp: nth_append)

subsection \<open>One pass\<close>

lemma cycle_body_tests:
  "cycle_body E prm cell cc co st =
     (case calc_cij E prm st cc of
        (Inl e, st1) \<Rightarrow> (Raise e, st1)
      | (Inr res, st1) \<Rightarrow>
          if test_A prm st1 res cc then (Break res, st1)
          else if test_B prm st1 res co then
            (case calc_cij E prm
                    (box_set st1 cc
                       (vects (average_box (box (heap st1 ! cell_new res))
                                 (box (heap st1 ! the co))))) cc of
               (Inl e, st3) \<Rightarrow> (Raise e, st3)
             | (Inr res2, st3) \<Rightarrow> (Break res2, st3))
          else if box_diverged prm (box (heap st1 ! cell)) (box (heap st1 ! cell_new res))
          then (Raise DivergenceBox, st1)
          else if ecoh res = 0 then (Raise DivergenceEcoh, st1)
          else (Continue (cell_new res) cc, st1))"
  by (simp add: cycle_body_def test_A_def test_B_def box_diverged_def Let_def
      split: prod.splits sum.splits option.splits)

lemma cycle_body_Continue:
  "cycle_body E prm cell cc co st = (Continue cn co', st') \<longleftrightarrow>
     (\<exists>res. calc_cij E prm st cc = (Inr res, st') \<and> cn = cell_new res \<and> co' = cc
        \<and> \<not> test_A prm st' res cc \<and> \<not> test_B prm st' res co
        \<and> \<not> box_diverged prm (box (heap st' ! cell)) (box (heap st' ! cell_new res))
        \<and> ecoh res \<noteq> 0)"
  by (auto simp add: cycle_body_tests split: prod.splits sum.splits if_splits)

lemma cycle_body_no_NonConvergence:
  "cycle_body E prm cell cc co st \<noteq> (Raise NonConvergence, st')"
  by (auto simp add: cycle_body_tests split: prod.splits sum.splits if_splits
      dest: calc_cij_errors)

lemma box_set_calls: "calls (box_set st p v) = calls st"
  by (simp add: box_set_def)

lemma box_set_length: "length (heap (box_set st p v)) = length (heap st)"
  by (simp add: box_set_def)

lemma box_set_nth_other: "q \<noteq> p \<Longrightarrow> heap (box_set st p v) ! q = heap st ! q"
  by (simp add: box_set_def)

lemma box_set_nth_same:
  "p < length (heap st) \<Longrightarrow> heap (box_set st p v) ! p = box_set_vects v (heap st ! p)"
  by (simp add: box_set_def)

lemma cycle_body_calls:
  assumes "cycle_body E prm cell cc co st = (r, st')"
  shows "calls st' = Suc (calls st) \<or> calls st' = Suc (Suc (calls st))"
proof (cases "calc_cij E prm st cc")
  case (Pair x st1)
  show ?thesis
  proof (cases x)
    case (Inl e)
    with Pair assms calc_cij_calls[OF Pair] show ?thesis
      by (auto simp add: cycle_body_tests)
  next
    case (Inr res)
    obtain y st3 where c2: "calc_cij E prm
                    (box_set st1 cc
                       (vects (average_box (box (heap st1 ! cell_new res))
                                 (box (heap st1 ! the co))))) cc = (y, st3)"
      by (cases "calc_cij E prm
                    (box_set st1 cc
                       (vects (average_box (box (heap st1 ! cell_new res))
                                 (box (heap st1 ! the co))))) cc")
    from Pair Inr assms c2 calc_cij_calls[OF Pair] calc_cij_calls[OF c2] show ?thesis
      by (auto simp add: cycle_body_tests box_set_calls split: if_splits sum.splits)
  qed
qed

lemma cycle_body_Continue_calls:
  "cycle_body E prm cell cc co st = (Continue cn co', st') \<Longrightarrow> calls st' = Suc (calls st)"
  by (auto simp add: cycle_body_Continue dest: calc_cij_calls)

subsection \<open>The loop\<close>

lemma iterate_cycles:
  "iterate E prm cell k v = Some (cc, co, st) \<Longrightarrow>
     cycles E prm cell (k + n) (fst v) (fst (snd v)) (snd (snd v)) = cycles E prm cell n cc co st"
proof (induction k arbitrary: v)
  case 0
  then show ?case by simp
next
  case (Suc k)
  obtain c1 o1 s1 where v: "v = (c1, o1, s1)" by (cases v)
  from Suc.prems show ?case unfolding v
    by (auto split: prod.splits step.splits dest!: Suc.IH)
qed

lemma cycles_calls_bound:
  "calls (snd (cycles E prm cell n cc co st)) \<le> calls st + n + 1"
proof (induction n arbitrary: cc co st)
  case 0
  then show ?case by simp
next
  case (Suc n)
  obtain r st' where b: "cycle_body E prm cell cc co st = (r, st')"
    by (cases "cycle_body E prm cell cc co st")
  show ?case
  proof (cases r)
    case (Continue cn co')
    with b Suc.IH[of cn "Some co'" st'] cycle_body_Continue_calls[of E prm cell cc co st cn co' st']
    show ?thesis by simp
  next
    case (Break res)
    with b cycle_body_calls[OF b] show ?thesis by auto
  next
    case (Raise e)
    with b cycle_body_calls[OF b] show ?thesis by auto
  qed
qed

lemma cycles_NonConvergence:
  "fst (cycles E prm cell n cc co st) = Inl NonConvergence \<Longrightarrow>
     \<exists>v. iterate E prm cell n (cc, co, st) = Some v \<and> cycles E prm cell n cc co st = (Inl NonConvergence, snd (snd v))"
proof (induction n arbitrary: cc co st)
  case 0
  then show ?case by simp
next
  case (Suc n)
  obtain r st' where b: "cycle_body E prm cell cc co st = (r, st')"
    by (cases "cycle_body E prm cell cc co st")
  show ?case
  proof (cases r)
    case (Continue cn co')
    with b Suc.prems Suc.IH[of cn "Some co'" st'] show ?thesis by simp
  next
    case (Break res)
    with b Suc.prems show ?thesis by simp
  next
    case (Raise e)
    with b Suc.prems cycle_body_no_NonConvergence[of E prm cell cc co st st'] show ?thesis by simp
  qed
qed

lemma loop_inv_start: "loop_inv cell 0 (start cell)"
  by (simp add: loop_inv_def start_def deepcopy_def initial_state_def)

lemma loop_inv_step:
  assumes "loop_inv cell k (cc, co, st)"
    and "cycle_body E prm 0 cc co st = (Continue cn co', st')"
  shows "loop_inv cell (Suc k) (cn, Some co', st')"
proof -
  from assms(2) obtain res where c: "calc_cij E prm st cc = (Inr res, st')"
    and e: "cn = cell_new res" "co' = cc"
    by (auto simp add: cycle_body_Continue)
  from calc_cij_Inr_heap[OF c] obtain c' where h: "cell_new res = length (heap st)"
    "heap st' = heap st @ [c']" by auto
  from assms(1) h e calc_cij_calls[OF c] show ?thesis
    by (auto simp add: loop_inv_def nth_append split: option.splits)
qed

lemma iterate_inv:
  "iterate E prm 0 k v = Some v' \<Longrightarrow> loop_inv cell j v \<Longrightarrow> loop_inv cell (j + k) v'"
proof (induction k arbitrary: v j)
  case 0
  then show ?case by simp
next
  case (Suc k)
  obtain cc co st where v: "v = (cc, co, st)" by (cases v)
  from Suc.prems(1) obtain cn co' st' where
    b: "cycle_body E prm 0 cc co st = (Continue cn co', st')"
    and i: "iterate E prm 0 k (cn, Some co', st') = Some v'"
    unfolding v by (auto split: prod.splits step.splits)
  from Suc.prems(2) b have "loop_inv cell (Suc j) (cn, Some co', st')"
    unfolding v by (rule loop_inv_step)
  from Suc.IH[OF i this] show ?case by simp
qed

lemma reached_inv:
  "reached E cell prm k = Some v \<Longrightarrow> loop_inv cell k v"
  using iterate_inv[of E prm k "start cell" v cell 0] loop_inv_start[of cell]
  by (simp add: reached_def)

lemma quick_a_Cij_start:
  "quick_a_Cij E cell prm =
     cycles E prm 0 100 (fst (start cell)) (fst (snd (start cell))) (snd (snd (start cell)))"
  by (simp add: quick_a_Cij_def start_def split: prod.splits)

lemma quick_a_Cij_reached:
  assumes "reached E cell prm k = Some (cc, co, st)" and "k \<le> 100"
  shows "quick_a_Cij E cell prm = cycles E prm 0 (100 - k) cc co st"
proof -
  from assms(2) have "100 = k + (100 - k)" by simp
  then have "quick_a_Cij E cell prm = cycles E prm 0 (k + (100 - k)) (fst (start cell)) (fst (snd (start cell))) (snd (snd (start cell)))"
    by (simp only: quick_a_Cij_start)
  also have "\<dots> = cycles E prm 0 (100 - k) cc co st"
    using assms(1) unfolding reached_def by (rule iterate_cycles)
  finally show ?thesis .
qed

lemma quick_a_Cij_pass:
  assumes "reached E cell prm k = Some (cc, co, st)" and "k < 100"
  shows "quick_a_Cij E cell prm =
     (case cycle_body E prm 0 cc co st of
        (Break res, st') \<Rightarrow> (Inr res, st')
      | (Raise e, st') \<Rightarrow> (Inl e, st')
      | (Continue cn co', st') \<Rightarrow> cycles E prm 0 (99 - k) cn (Some co') st')"
proof -
  from assms(2) have "100 - k = Suc (99 - k)" by simp
  with quick_a_Cij_reached[OF assms(1)] assms(2) show ?thesis by simp
qed

subsection \<open>Scripted runs evaluated\<close>

lemma vects_Box_abc: "vects (Box_abc x y z) = ((x, 0, 0), (0, y, 0), (0, 0, z))"
  by (simp add: Box_abc_def)

lemma start_eq: "start cell = (1, None, \<lparr>heap = [cell, cell], calls = 0\<rparr>)"
  by (simp add: start_def deepcopy_def initial_state_def)

lemma reached_0: "reached E cell prm 0 = Some (1, None, \<lparr>heap = [cell, cell], calls = 0\<rparr>)"
  by (simp add: reached_def start_eq)

lemma raw_cij_probe: "raw_cij 1 (probe_thermo px py pz e) = Some ident6"
  by (simp add: raw_cij_def upt_upto_6 probe_thermo_def strains_def delta_stress_def
      alt13_def pulse13_def set_in_units_def ident6_def)

lemma symmetrize_ident6: "symmetrize ident6 = ident6"
  by (simp add: symmetrize_def ident6_def sym_assign_def mat_set_def upt_upto_6
      list_update_Cons_numeral)

lemma not_allclose_zero_ident6: "\<not> allclose_zero ident6"
  by (simp add: allclose_zero_def ident6_def isclose_def default_atol_def default_rtol_def)

lemma diag_inverse_ident6: "diag_inverse ident6 = Some ident6"
  by (simp add: diag_inverse_def upt_upto_6 ident6_def)

lemma thermo_complete_probe: "thermo_complete (probe_thermo px py pz e)"
  by (simp add: thermo_complete_def probe_thermo_def alt13_def pulse13_def)

lemma stress_of_probe:
  "stress_of 1 (probe_thermo px py pz e) = ((- px, 0, 0), (0, - py, 0), (0, 0, - pz))"
  by (simp add: stress_of_def probe_thermo_def pulse13_def set_in_units_def)

lemma new_dim_ident6:
  "new_dim ident6 0 sx sy sz l = (if sx + 1 = 0 then None else Some (l / (sx + 1)))"
  "new_dim ident6 1 sx sy sz l = (if sy + 1 = 0 then None else Some (l / (sy + 1)))"
  "new_dim ident6 (Suc 0) sx sy sz l = (if sy + 1 = 0 then None else Some (l / (sy + 1)))"
  "new_dim ident6 2 sx sy sz l = (if sz + 1 = 0 then None else Some (l / (sz + 1)))"
  by (simp_all add: new_dim_def ident6_def)

lemma peatom_probe: "set_in_units (peatom (probe_thermo px py pz e)) 1 = [e]"
  by (simp add: probe_thermo_def set_in_units_def)

lemma calc_cij_scripted:
  assumes f: "f (calls st) (heap st ! p) = (ta, tb, tc, e)"
    and t: "0 < ta" "0 < tb" "0 < tc"
    and l: "0 < box_a (box (heap st ! p))" "0 < box_b (box (heap st ! p))"
      "0 < box_c (box (heap st ! p))"
    and z: "p_xx prm = 0" "p_yy prm = 0" "p_zz prm = 0"
  shows "calc_cij (scripted f) prm st p =
    (Inr \<lparr>elastic_C = ident6,
          stress = ((box_a (box (heap st ! p)) / ta - 1, 0, 0),
                    (0, box_b (box (heap st ! p)) / tb - 1, 0),
                    (0, 0, box_c (box (heap st ! p)) / tc - 1)),
          ecoh = e, cell_new = length (heap st)\<rparr>,
     st\<lparr>heap := heap st @ [box_set_vects (vects (Box_abc ta tb tc)) (heap st ! p)],
        calls := Suc (calls st)\<rparr>)"
  using f t l z
  by (simp add: calc_cij_def scripted_def scripted_run_def raw_cij_probe symmetrize_ident6
      not_allclose_zero_ident6 diag_inverse_ident6 thermo_complete_probe stress_of_probe
      new_dim_ident6 nonpositive_def peatom_probe stress_xx_def stress_yy_def stress_zz_def
      deepcopy_def box_set_def Let_def)

text \<open>The same with the script's answer taken apart by projections.\<close>

lemma calc_cij_scripted_proj:
  assumes "0 < fst (f (calls st) (heap st ! p))"
    and "0 < fst (snd (f (calls st) (heap st ! p)))"
    and "0 < fst (snd (snd (f (calls st) (heap st ! p))))"
    and "0 < box_a (box (heap st ! p))" and "0 < box_b (box (heap st ! p))"
    and "0 < box_c (box (heap st ! p))"
    and "p_xx prm = 0" and "p_yy prm = 0" and "p_zz prm = 0"
  shows "calc_cij (scripted f) prm st p =
    (Inr \<lparr>elastic_C = ident6,
          stress = ((box_a (box (heap st ! p)) / fst (f (calls st) (heap st ! p)) - 1, 0, 0),
                    (0, box_b (box (heap st ! p)) / fst (snd (f (calls st) (heap st ! p))) - 1, 0),
                    (0, 0,
                     box_c (box (heap st ! p)) / fst (snd (snd (f (calls st) (heap st ! p)))) - 1)),
          ecoh = snd (snd (snd (f (calls st) (heap st ! p)))),
          cell_new = length (heap st)\<rparr>,
     st\<lparr>heap := heap st @
            [box_set_vects
               (vects (Box_abc (fst (f (calls st) (heap st ! p)))
                         (fst (snd (f (calls st) (heap st ! p))))
                         (fst (snd (snd (f (calls st) (heap st ! p)))))))
               (heap st ! p)],
        calls := Suc (calls st)\<rparr>)"
proof -
  have "f (calls st) (heap st ! p)
          = (fst (f (calls st) (heap st ! p)), fst (snd (f (calls st) (heap st ! p))),
             fst (snd (snd (f (calls st) (heap st ! p)))),
             snd (snd (snd (f (calls st) (heap st ! p)))))"
    by simp
  then show ?thesis
    using assms by (rule calc_cij_scripted)
qed

subsection \<open>Tolerances\<close>

lemma isclose_atol_mono: "isclose rtol 0 x y \<Longrightarrow> 0 \<le> atol \<Longrightarrow> isclose rtol atol x y"
  by (simp add: isclose_def)

lemma relative_close_allclose:
  "allclose rtol 0 A B \<Longrightarrow> allclose rtol default_atol A B"
  by (auto simp add: allclose_def allclose_vec_def default_atol_def split: prod.splits
      intro: isclose_atol_mono)

lemma all_zero_allclose_zero:
  assumes "all_zero M"
  shows "allclose_zero M"
proof -
  have z: "isclose default_rtol default_atol x 0" if "x = 0" for x
    using that by (simp add: isclose_def default_atol_def)
  have inner: "list_all (\<lambda>x. isclose default_rtol default_atol x 0) r"
    if "list_all (\<lambda>x. x = 0) r" for r
    by (rule list.pred_mono_strong[OF that]) (rule z)
  from assms have "list_all (list_all (\<lambda>x. x = 0)) M"
    by (simp add: all_zero_def)
  then have "list_all (list_all (\<lambda>x. isclose default_rtol default_atol x 0)) M"
    by (rule list.pred_mono_strong) (rule inner)
  then show ?thesis
    by (simp add: allclose_zero_def)
qed

subsection \<open>Convergence to a single size\<close>

text \<open>
  C1. If the first evaluation succeeds and the box vectors of its \<open>cell_new\<close> match those
  of the initial cell under the test of the code, \<open>np.allclose(.., rtol=tol)\<close>,
  \<open>quick_a_Cij\<close> returns after exactly one call of \<open>calc_cij\<close>, and what it returns is
  the result of that call. A match within the relative tolerance alone passes that test
  (\<open>relative_close_allclose\<close>), since the default \<open>atol\<close> only widens it.
\<close>

theorem single_point_convergence:
  assumes "calc_cij E prm \<lparr>heap = [cell, cell], calls = 0\<rparr> 1 = (Inr res, st1)"
    and "allclose (tol prm) default_atol (vects (box (heap st1 ! cell_new res)))
           (vects (box cell))"
  shows "quick_a_Cij E cell prm = (Inr res, st1) \<and> calls st1 = 1"
proof -
  from calc_cij_Inr_heap[OF assms(1)] have "heap st1 ! 1 = cell"
    by (auto simp add: nth_append)
  with assms(2) have a: "test_A prm st1 res 1"
    by (simp add: test_A_def)
  have "quick_a_Cij E cell prm =
     (case cycle_body E prm 0 1 None \<lparr>heap = [cell, cell], calls = 0\<rparr> of
        (Break res, st') \<Rightarrow> (Inr res, st')
      | (Raise e, st') \<Rightarrow> (Inl e, st')
      | (Continue cn co', st') \<Rightarrow> cycles E prm 0 (99 - 0) cn (Some co') st')"
    by (rule quick_a_Cij_pass[OF reached_0]) simp
  with assms(1) a calc_cij_calls[OF assms(1)] show ?thesis
    by (simp add: cycle_body_tests)
qed

subsection \<open>Divergence\<close>

lemma pass_not_converged:
  assumes r: "reached E cell prm k = Some (cc, co, st)" and k: "k < 100"
    and c: "calc_cij E prm st cc = (Inr res, st1)"
    and a: "\<not> test_A prm st1 res cc" and b: "\<not> test_B prm st1 res co"
  shows "quick_a_Cij E cell prm =
     (if box_diverged prm (box cell) (box (heap st1 ! cell_new res))
      then (Inl DivergenceBox, st1)
      else if ecoh res = 0 then (Inl DivergenceEcoh, st1)
      else cycles E prm 0 (99 - k) (cell_new res) (Some cc) st1)"
    and "calls st1 = Suc k"
proof -
  from reached_inv[OF r] have i: "calls st = k" "0 < length (heap st)" "heap st ! 0 = cell"
    by (auto simp add: loop_inv_def)
  from calc_cij_heap[OF c] i have h: "heap st1 ! 0 = cell"
    by (auto simp add: nth_append)
  from calc_cij_calls[OF c] i show "calls st1 = Suc k" by simp
  from quick_a_Cij_pass[OF r k] c a b h show "quick_a_Cij E cell prm =
     (if box_diverged prm (box cell) (box (heap st1 ! cell_new res))
      then (Inl DivergenceBox, st1)
      else if ecoh res = 0 then (Inl DivergenceEcoh, st1)
      else cycles E prm 0 (99 - k) (cell_new res) (Some cc) st1)"
    by (simp add: cycle_body_tests)
qed

text \<open>
  C5. In a pass of the loop (the \<open>k\<close>-th, \<open>k < 100\<close>) in which neither convergence test
  fires, if one of \<open>a\<close>, \<open>b\<close>, \<open>c\<close> of \<open>cell_new\<close> is below \<open>x / diverge_scale\<close> or
  above \<open>x * diverge_scale\<close>, where \<open>x\<close> is that dimension of the cell \<open>quick_a_Cij\<close>
  was called with, the function raises \<open>Divergence of box dimensions\<close> in that pass,
  after \<open>k + 1\<close> calls, which is at most 100.
\<close>

theorem box_divergence:
  assumes "reached E cell prm k = Some (cc, co, st)" and "k < 100"
    and "calc_cij E prm st cc = (Inr res, st1)"
    and "\<not> test_A prm st1 res cc" and "\<not> test_B prm st1 res co"
    and "box_diverged prm (box cell) (box (heap st1 ! cell_new res))"
  shows "quick_a_Cij E cell prm = (Inl DivergenceBox, st1) \<and> calls st1 = k + 1
         \<and> calls st1 \<le> 100"
  using pass_not_converged[OF assms(1-5)] assms(2,6) by simp

text \<open>
  C3, as amended. In a pass (the \<open>k\<close>-th, \<open>k < 100\<close>) in which the evaluation reports a
  cohesive energy equal to \<open>0.0\<close> and neither convergence test fires, \<open>quick_a_Cij\<close> raises
  a divergence error: \<open>Divergence of box dimensions\<close> when a dimension of \<open>cell_new\<close> is
  outside the bounds, \<open>Divergence: cohesive energy is 0\<close> otherwise.
\<close>

theorem zero_energy_divergence:
  assumes "reached E cell prm k = Some (cc, co, st)" and "k < 100"
    and "calc_cij E prm st cc = (Inr res, st1)"
    and "\<not> test_A prm st1 res cc" and "\<not> test_B prm st1 res co"
    and "ecoh res = 0"
  shows "quick_a_Cij E cell prm
           = (Inl (if box_diverged prm (box cell) (box (heap st1 ! cell_new res))
                   then DivergenceBox else DivergenceEcoh), st1)"
  using pass_not_converged[OF assms(1-5)] assms(6) by simp

subsection \<open>Termination and the number of evaluations\<close>

text \<open>
  C10. \<open>quick_a_Cij\<close> is a total function: every run ends with a result or an error, and
  it has called \<open>calc_cij\<close> at most 101 times (at most 100 passes with one call each, and
  at most one more call in the averaging branch).
\<close>

theorem evaluator_calls_bound: "calls (snd (quick_a_Cij E cell prm)) \<le> 101"
  using cycles_calls_bound[of E prm 0 100 1 None "\<lparr>heap = [cell, cell], calls = 0\<rparr>"]
  by (simp add: quick_a_Cij_start start_eq)

text \<open>
  C4. \<open>reached E cell prm 100 \<noteq> None\<close> says that all 100 passes reached the final
  \<open>else\<close> branch: the evaluation succeeded, neither convergence test fired and no
  divergence test did (\<open>cycle_body_Continue\<close>). Exactly then \<open>quick_a_Cij\<close> raises
  \<open>Failed to converge after 100 cycles\<close>, and whenever it raises that error it has called
  \<open>calc_cij\<close> exactly 100 times.
\<close>

theorem non_convergence:
  "(fst (quick_a_Cij E cell prm) = Inl NonConvergence \<longleftrightarrow> reached E cell prm 100 \<noteq> None)
   \<and> (fst (quick_a_Cij E cell prm) = Inl NonConvergence \<longrightarrow>
        calls (snd (quick_a_Cij E cell prm)) = 100)"
proof -
  have 1: "fst (quick_a_Cij E cell prm) = Inl NonConvergence
           \<and> calls (snd (quick_a_Cij E cell prm)) = 100"
    if "reached E cell prm 100 \<noteq> None"
  proof -
    from that obtain cc co st where r: "reached E cell prm 100 = Some (cc, co, st)"
      by (cases "reached E cell prm 100") auto
    from reached_inv[OF r] have "calls st = 100"
      by (simp add: loop_inv_def)
    with quick_a_Cij_reached[OF r] show ?thesis by simp
  qed
  have 2: "reached E cell prm 100 \<noteq> None"
    if "fst (quick_a_Cij E cell prm) = Inl NonConvergence"
    using that cycles_NonConvergence[of E prm 0 100 1 None "\<lparr>heap = [cell, cell], calls = 0\<rparr>"]
    by (auto simp add: quick_a_Cij_start start_eq reached_def)
  from 1 2 show ?thesis by blast
qed

subsection \<open>The new box of \<open>calc_cij\<close>\<close>

lemma stress_of_complete:
  assumes "thermo_complete d"
  shows "stress_of pu d =
             ((- (Pxx d ! 0 * pu), - (Pxy d ! 0 * pu), - (Pxz d ! 0 * pu)),
              (- (Pxy d ! 0 * pu), - (Pyy d ! 0 * pu), - (Pyz d ! 0 * pu)),
              (- (Pxz d ! 0 * pu), - (Pyz d ! 0 * pu), - (Pzz d ! 0 * pu)))"
proof -
  from assms have "0 < length (Pxx d)" "0 < length (Pyy d)" "0 < length (Pzz d)"
    "0 < length (Pxy d)" "0 < length (Pxz d)" "0 < length (Pyz d)"
    by (auto simp add: thermo_complete_def)
  then show ?thesis
    by (simp add: stress_of_def set_in_units_def Let_def)
qed

lemma effective_stress:
  assumes "thermo_complete d"
  shows "stress_xx (stress_of pu d) + t = - (Pxx d ! 0 * pu) + t"
    and "stress_yy (stress_of pu d) + t = - (Pyy d ! 0 * pu) + t"
    and "stress_zz (stress_of pu d) + t = - (Pzz d ! 0 * pu) + t"
  by (simp_all add: stress_of_complete[OF assms] stress_xx_def stress_yy_def stress_zz_def)

lemma calc_cij_Inr_new:
  assumes "calc_cij E prm st p = (Inr res, st')"
    and "run E (calls st) (heap st ! p) = Inr d"
    and "Sij E (elastic_C res) = Some S"
  shows "\<exists>la lb lc.
           new_dim S 0 (- (Pxx d ! 0 * p_unit E) + p_xx prm) (- (Pyy d ! 0 * p_unit E) + p_yy prm)
             (- (Pzz d ! 0 * p_unit E) + p_zz prm) (box_a (box (heap st ! p))) = Some la
         \<and> new_dim S 1 (- (Pxx d ! 0 * p_unit E) + p_xx prm) (- (Pyy d ! 0 * p_unit E) + p_yy prm)
             (- (Pzz d ! 0 * p_unit E) + p_zz prm) (box_b (box (heap st ! p))) = Some lb
         \<and> new_dim S 2 (- (Pxx d ! 0 * p_unit E) + p_xx prm) (- (Pyy d ! 0 * p_unit E) + p_yy prm)
             (- (Pzz d ! 0 * p_unit E) + p_zz prm) (box_c (box (heap st ! p))) = Some lc
         \<and> 0 < la \<and> 0 < lb \<and> 0 < lc
         \<and> heap st' ! cell_new res
             = box_set_vects (vects (Box_abc la lb lc)) (heap st ! p)"
    and "stress res = stress_of (p_unit E) d"
    and "\<exists>raw. raw_cij (p_unit E) d = Some raw \<and> elastic_C res = symmetrize raw"
  using assms
  by (auto simp add: calc_cij_def Let_def deepcopy_def box_set_def effective_stress
      nonpositive_def split: sum.splits option.splits list.splits if_splits)

text \<open>
  C7. When \<open>calc_cij\<close> returns, each edge of \<open>cell_new\<close> is
  \<open>old / (S[i,0]*s_xx + S[i,1]*s_yy + S[i,2]*s_zz + 1)\<close> for the row \<open>i\<close> of its axis, where
  \<open>S\<close> is the compliance matrix of the symmetrised \<open>cij\<close> and \<open>s_jj\<close> is the negated
  baseline pressure (entry 0 of the column, in the pressure unit) plus the target
  pressure of that axis; the stress returned is the negated pressure tensor.
\<close>

theorem new_dimension_formula:
  assumes "calc_cij E prm st p = (Inr res, st')"
    and "run E (calls st) (heap st ! p) = Inr d"
    and "Sij E (elastic_C res) = Some S"
  shows "(let s_xx = - (Pxx d ! 0 * p_unit E) + p_xx prm;
              s_yy = - (Pyy d ! 0 * p_unit E) + p_yy prm;
              s_zz = - (Pzz d ! 0 * p_unit E) + p_zz prm;
              old = box (heap st ! p);
              new = box (heap st' ! cell_new res)
          in box_a new = box_a old / (S ! 0 ! 0 * s_xx + S ! 0 ! 1 * s_yy + S ! 0 ! 2 * s_zz + 1)
           \<and> box_b new = box_b old / (S ! 1 ! 0 * s_xx + S ! 1 ! 1 * s_yy + S ! 1 ! 2 * s_zz + 1)
           \<and> box_c new = box_c old / (S ! 2 ! 0 * s_xx + S ! 2 ! 1 * s_yy + S ! 2 ! 2 * s_zz + 1)
           \<and> stress res = ((- (Pxx d ! 0 * p_unit E), - (Pxy d ! 0 * p_unit E), - (Pxz d ! 0 * p_unit E)),
                            (- (Pxy d ! 0 * p_unit E), - (Pyy d ! 0 * p_unit E), - (Pyz d ! 0 * p_unit E)),
                            (- (Pxz d ! 0 * p_unit E), - (Pyz d ! 0 * p_unit E), - (Pzz d ! 0 * p_unit E))))"
proof -
  note n = calc_cij_Inr_new[OF assms]
  from assms have "thermo_complete d"
    by (auto simp add: calc_cij_def Let_def split: sum.splits if_splits)
  then have s: "stress_of (p_unit E) d =
             ((- (Pxx d ! 0 * p_unit E), - (Pxy d ! 0 * p_unit E), - (Pxz d ! 0 * p_unit E)),
              (- (Pxy d ! 0 * p_unit E), - (Pyy d ! 0 * p_unit E), - (Pyz d ! 0 * p_unit E)),
              (- (Pxz d ! 0 * p_unit E), - (Pyz d ! 0 * p_unit E), - (Pzz d ! 0 * p_unit E)))"
    by (rule stress_of_complete)
  from n(1) obtain la lb lc where
    a: "new_dim S 0 (- (Pxx d ! 0 * p_unit E) + p_xx prm) (- (Pyy d ! 0 * p_unit E) + p_yy prm)
             (- (Pzz d ! 0 * p_unit E) + p_zz prm) (box_a (box (heap st ! p))) = Some la"
    and b: "new_dim S 1 (- (Pxx d ! 0 * p_unit E) + p_xx prm) (- (Pyy d ! 0 * p_unit E) + p_yy prm)
             (- (Pzz d ! 0 * p_unit E) + p_zz prm) (box_b (box (heap st ! p))) = Some lb"
    and c: "new_dim S 2 (- (Pxx d ! 0 * p_unit E) + p_xx prm) (- (Pyy d ! 0 * p_unit E) + p_yy prm)
             (- (Pzz d ! 0 * p_unit E) + p_zz prm) (box_c (box (heap st ! p))) = Some lc"
    and l: "0 < la" "0 < lb" "0 < lc"
    and h: "heap st' ! cell_new res = box_set_vects (vects (Box_abc la lb lc)) (heap st ! p)"
    by blast
  have dims: "box_a (box (heap st' ! cell_new res)) = la"
    "box_b (box (heap st' ! cell_new res)) = lb" "box_c (box (heap st' ! cell_new res)) = lc"
    using l by (simp_all add: h box_set_vects_box box_abc_dims)
  from a b c have e:
    "la = box_a (box (heap st ! p))
           / (S ! 0 ! 0 * (- (Pxx d ! 0 * p_unit E) + p_xx prm)
              + S ! 0 ! 1 * (- (Pyy d ! 0 * p_unit E) + p_yy prm)
              + S ! 0 ! 2 * (- (Pzz d ! 0 * p_unit E) + p_zz prm) + 1)"
    "lb = box_b (box (heap st ! p))
           / (S ! 1 ! 0 * (- (Pxx d ! 0 * p_unit E) + p_xx prm)
              + S ! 1 ! 1 * (- (Pyy d ! 0 * p_unit E) + p_yy prm)
              + S ! 1 ! 2 * (- (Pzz d ! 0 * p_unit E) + p_zz prm) + 1)"
    "lc = box_c (box (heap st ! p))
           / (S ! 2 ! 0 * (- (Pxx d ! 0 * p_unit E) + p_xx prm)
              + S ! 2 ! 1 * (- (Pyy d ! 0 * p_unit E) + p_yy prm)
              + S ! 2 ! 2 * (- (Pzz d ! 0 * p_unit E) + p_zz prm) + 1)"
    by (auto simp add: new_dim_def Let_def split: if_splits)
  show ?thesis
    unfolding Let_def dims n(2) s using e by simp
qed

subsection \<open>Errors of the evaluation\<close>

lemma calc_cij_raises:
  assumes "run E (calls st) (heap st ! p) = Inr d" and "thermo_complete d"
    and "raw_cij (p_unit E) d = Some raw"
  shows "allclose_zero (symmetrize raw) \<Longrightarrow>
           fst (calc_cij E prm st p) = Inl ZeroElasticConstants"
    and "\<not> allclose_zero (symmetrize raw) \<Longrightarrow> Sij E (symmetrize raw) = None \<Longrightarrow>
           fst (calc_cij E prm st p) = Inl SingularC"
    and "\<not> allclose_zero (symmetrize raw) \<Longrightarrow> Sij E (symmetrize raw) = Some S \<Longrightarrow>
           new_dim S 0 (- (Pxx d ! 0 * p_unit E) + p_xx prm) (- (Pyy d ! 0 * p_unit E) + p_yy prm)
                (- (Pzz d ! 0 * p_unit E) + p_zz prm) (box_a (box (heap st ! p))) = Some l
           \<or> new_dim S 1 (- (Pxx d ! 0 * p_unit E) + p_xx prm) (- (Pyy d ! 0 * p_unit E) + p_yy prm)
                (- (Pzz d ! 0 * p_unit E) + p_zz prm) (box_b (box (heap st ! p))) = Some l
           \<or> new_dim S 2 (- (Pxx d ! 0 * p_unit E) + p_xx prm) (- (Pyy d ! 0 * p_unit E) + p_yy prm)
                (- (Pzz d ! 0 * p_unit E) + p_zz prm) (box_c (box (heap st ! p))) = Some l \<Longrightarrow>
           l \<le> 0 \<Longrightarrow>
           fst (calc_cij E prm st p) = Inl NonPositiveBox"
  using assms
  by (auto simp add: calc_cij_def Let_def effective_stress nonpositive_def)

lemma pass_evaluator_error:
  assumes "reached E cell prm k = Some (cc, co, st)" and "k < 100"
    and "calc_cij E prm st cc = (Inl e, st1)"
  shows "quick_a_Cij E cell prm = (Inl e, st1)" and "calls st1 = k + 1"
proof -
  from quick_a_Cij_pass[OF assms(1,2)] assms(3) show "quick_a_Cij E cell prm = (Inl e, st1)"
    by (simp add: cycle_body_tests)
  from reached_inv[OF assms(1)] calc_cij_calls[OF assms(3)] show "calls st1 = k + 1"
    by (simp add: loop_inv_def)
qed

subsection \<open>Convergence to two sizes\<close>

lemma box_a_average:
  "box_a (average_box bn bo) = (box_a bn + box_a bo) / 2"
  "box_b (average_box bn bo) = (box_b bn + box_b bo) / 2"
  "box_c (average_box bn bo) = (box_c bn + box_c bo) / 2"
  using box_dims_nonneg[of bn] box_dims_nonneg[of bo]
  by (simp_all add: average_box_def box_abc_dims)

lemma pass_oscillation:
  assumes r: "reached E cell prm k = Some (cc, co, st)" and k: "k < 100"
    and c: "calc_cij E prm st cc = (Inr res, st1)"
    and a: "\<not> test_A prm st1 res cc" and b: "test_B prm st1 res co"
  shows "quick_a_Cij E cell prm =
           calc_cij E prm (box_set st1 cc (vects (average_box (box (heap st1 ! cell_new res))
                                                   (box (heap st1 ! the co))))) cc"
    and "calls (snd (quick_a_Cij E cell prm)) = k + 2"
    and "heap (box_set st1 cc (vects (average_box (box (heap st1 ! cell_new res))
                                                   (box (heap st1 ! the co))))) ! cc
         = box_set_vects (vects (average_box (box (heap st1 ! cell_new res))
                                                   (box (heap st1 ! the co)))) (heap st1 ! cc)"
proof -
  let ?st2 = "box_set st1 cc (vects (average_box (box (heap st1 ! cell_new res))
                                                   (box (heap st1 ! the co))))"
  obtain y st3 where c2: "calc_cij E prm ?st2 cc = (y, st3)"
    by (cases "calc_cij E prm ?st2 cc")
  from c a b c2 have "cycle_body E prm 0 cc co st =
      (case y of Inl e \<Rightarrow> Raise e | Inr res2 \<Rightarrow> Break res2, st3)"
    by (simp add: cycle_body_tests split: sum.splits)
  with quick_a_Cij_pass[OF r k] c2 show q: "quick_a_Cij E cell prm = calc_cij E prm ?st2 cc"
    by (cases y) simp_all
  from reached_inv[OF r] have i: "calls st = k" "cc < length (heap st)"
    by (auto simp add: loop_inv_def)
  from calc_cij_calls[OF c] calc_cij_calls[OF c2] i show "calls (snd (quick_a_Cij E cell prm)) = k + 2"
    by (simp add: q c2 box_set_calls)
  from calc_cij_heap[OF c] i have "cc < length (heap st1)"
    by auto
  then show "heap ?st2 ! cc = box_set_vects (vects (average_box (box (heap st1 ! cell_new res))
                                                   (box (heap st1 ! the co)))) (heap st1 ! cc)"
    by (rule box_set_nth_same)
qed

lemma reached_1:
  assumes c: "calc_cij E prm \<lparr>heap = [cell, cell], calls = 0\<rparr> 1 = (Inr r1, s1)"
    and a: "\<not> allclose (tol prm) default_atol (vects (box (heap s1 ! cell_new r1))) (vects (box cell))"
    and d: "\<not> box_diverged prm (box cell) (box (heap s1 ! cell_new r1))"
    and e: "ecoh r1 \<noteq> 0"
  shows "reached E cell prm 1 = Some (2, Some 1, s1)"
proof -
  from calc_cij_Inr_heap[OF c] obtain c' where h: "cell_new r1 = 2" "heap s1 = [cell, cell, c']"
    by auto
  with a d e c show ?thesis
    by (simp add: reached_def start_eq cycle_body_tests test_A_def test_B_def)
qed

lemma allclose_refl: "0 \<le> rtol \<Longrightarrow> 0 \<le> atol \<Longrightarrow> allclose rtol atol A A"
  by (simp add: allclose_def allclose_vec_def isclose_def split: prod.splits)

lemma two_cycle:
  assumes c1: "calc_cij E prm \<lparr>heap = [cell, cell], calls = 0\<rparr> 1 = (Inr r1, s1)"
    and c2: "calc_cij E prm s1 (cell_new r1) = (Inr r2, s2)"
    and ret: "vects (box (heap s2 ! cell_new r2)) = vects (box cell)"
    and ab: "\<not> allclose (tol prm) default_atol (vects (box (heap s1 ! cell_new r1))) (vects (box cell))"
    and ba: "\<not> allclose (tol prm) default_atol (vects (box cell)) (vects (box (heap s1 ! cell_new r1)))"
    and d: "\<not> box_diverged prm (box cell) (box (heap s1 ! cell_new r1))"
    and e: "ecoh r1 \<noteq> 0" and t: "0 \<le> tol prm"
  shows "calls (snd (quick_a_Cij E cell prm)) = 3"
    and "quick_a_Cij E cell prm =
           calc_cij E prm (box_set s2 (cell_new r1) (vects (average_box (box (heap s2 ! cell_new r2))
                                                   (box cell)))) (cell_new r1)"
proof -
  have r: "reached E cell prm 1 = Some (2, Some 1, s1)"
    using c1 ab d e by (rule reached_1)
  from calc_cij_Inr_heap[OF c1] obtain c' where h1: "cell_new r1 = 2" "heap s1 = [cell, cell, c']"
    by auto
  from calc_cij_Inr_heap[OF c2] h1 obtain c'' where h2: "heap s2 = [cell, cell, c', c'']"
    by auto
  have a: "\<not> test_A prm s2 r2 2"
    using ba ret h1 h2 by (simp add: test_A_def)
  have b: "test_B prm s2 r2 (Some 1)"
    using ret h2 t by (simp add: test_B_def allclose_refl default_atol_def)
  from c2 h1 have c2': "calc_cij E prm s1 2 = (Inr r2, s2)" by simp
  have k: "(1::nat) < 100" by simp
  from pass_oscillation(2)[OF r k c2' a b] show "calls (snd (quick_a_Cij E cell prm)) = 3"
    by simp
  from pass_oscillation(1)[OF r k c2' a b] h1 h2 show "quick_a_Cij E cell prm =
           calc_cij E prm (box_set s2 (cell_new r1) (vects (average_box (box (heap s2 ! cell_new r2))
                                                   (box cell)))) (cell_new r1)"
    by simp
qed

subsection \<open>What happens to the systems in the store\<close>

lemma calc_cij_unchanged: "calc_cij E prm st p = (r, st') \<Longrightarrow> unchanged st st'"
  by (auto simp add: unchanged_def dest: calc_cij_heap)

lemma cycle_body_heap:
  assumes "cycle_body E prm c0 cc co st = (r, st')"
  shows "length (heap st) \<le> length (heap st')
         \<and> (\<forall>p < length (heap st). p \<noteq> cc \<longrightarrow> heap st' ! p = heap st ! p)"
proof (cases "calc_cij E prm st cc")
  case (Pair x st1)
  note h1 = calc_cij_heap[OF Pair]
  show ?thesis
  proof (cases x)
    case (Inl e)
    with Pair assms h1 show ?thesis
      by (auto simp add: cycle_body_tests nth_append)
  next
    case (Inr res)
    let ?v = "vects (average_box (box (heap st1 ! cell_new res)) (box (heap st1 ! the co)))"
    let ?st2 = "box_set st1 cc ?v"
    obtain y st3 where c2: "calc_cij E prm ?st2 cc = (y, st3)"
      by (cases "calc_cij E prm ?st2 cc")
    note h2 = calc_cij_heap[OF c2]
    have l: "length (heap st) \<le> length (heap st1)" "length (heap st1) \<le> length (heap st3)"
      using h1 h2 by (auto simp add: box_set_length)
    have n1: "heap st1 ! q = heap st ! q" if "q < length (heap st)" for q
      using h1 that by (auto simp add: nth_append)
    have n3: "heap st3 ! q = heap st1 ! q" if "q < length (heap st1)" "q \<noteq> cc" for q
      using h2 that box_set_nth_other[of q cc st1 ?v] box_set_length[of st1 cc ?v]
      by (auto simp add: nth_append)
    from Pair Inr assms c2 have "st' = st1 \<or> st' = st3"
      by (auto simp add: cycle_body_tests split: if_splits sum.splits)
    with l n1 n3 show ?thesis
      by auto
  qed
qed

lemma cycle_body_Continue_unchanged:
  "cycle_body E prm c0 cc co st = (Continue cn co', st') \<Longrightarrow> unchanged st st'"
  by (auto simp add: cycle_body_Continue dest: calc_cij_unchanged)

lemma cycles_heap_0:
  "0 < cc \<Longrightarrow> 0 < length (heap st) \<Longrightarrow>
     heap (snd (cycles E prm c0 n cc co st)) ! 0 = heap st ! 0"
proof (induction n arbitrary: cc co st)
  case 0
  then show ?case by simp
next
  case (Suc n)
  obtain r st' where b: "cycle_body E prm c0 cc co st = (r, st')"
    by (cases "cycle_body E prm c0 cc co st")
  from cycle_body_heap[OF b] Suc.prems have h: "0 < length (heap st')" "heap st' ! 0 = heap st ! 0"
    by auto
  show ?case
  proof (cases r)
    case (Continue cn co')
    with b have "\<exists>res. calc_cij E prm st cc = (Inr res, st') \<and> cn = cell_new res"
      by (auto simp add: cycle_body_Continue)
    with Suc.prems have "0 < cn"
      by (auto dest: calc_cij_Inr_heap)
    from Suc.IH[OF this h(1), of "Some co'"] h(2) b Continue show ?thesis by simp
  next
    case (Break res)
    with b h show ?thesis by simp
  next
    case (Raise e)
    with b h show ?thesis by simp
  qed
qed

lemma quick_a_Cij_caller_cell: "heap (snd (quick_a_Cij E cell prm)) ! 0 = cell"
  using cycles_heap_0[of 1 "\<lparr>heap = [cell, cell], calls = 0\<rparr>" E prm 0 100 None]
  by (simp add: quick_a_Cij_start start_eq)

subsection \<open>Two-size convergence, errors and the store: the statements\<close>

text \<open>
  C2, as amended. First part: in a pass (the \<open>k\<close>-th, \<open>k < 100\<close>) in which \<open>cell_old\<close> is
  set, the evaluation succeeds, test A of the code does not fire and \<open>cell_new\<close> matches
  \<open>cell_old\<close> under the same test (\<open>np.allclose\<close> with \<open>rtol=tol\<close> and numpy's default
  \<open>atol\<close>), the box written to \<open>cell_current\<close> has as \<open>a\<close>, \<open>b\<close>, \<open>c\<close> the means of those
  of \<open>cell_new\<close> and \<open>cell_old\<close>; \<open>calc_cij\<close> is called once more, on that system, and
  \<open>quick_a_Cij\<close> ends with the outcome of that call after \<open>k + 2\<close> calls.
  Second part: with a tolerance that is not negative, when the first evaluation leads
  from the initial box to one that does not match it (either way round), lies within
  the divergence bounds and comes with an energy that is not zero, and the second
  evaluation leads back to the initial box, the second pass detects it and the run
  takes three evaluations in all.
\<close>

theorem oscillation_averaging:
  "(reached E cell prm k = Some (cc, Some p, st) \<and> k < 100
      \<and> calc_cij E prm st cc = (Inr res, st1)
      \<and> \<not> test_A prm st1 res cc \<and> test_B prm st1 res (Some p) \<longrightarrow>
    (let avg = average_box (box (heap st1 ! cell_new res)) (box (heap st1 ! p));
         st2 = box_set st1 cc (vects avg)
     in box_a avg = (box_a (box (heap st1 ! cell_new res)) + box_a (box (heap st1 ! p))) / 2
      \<and> box_b avg = (box_b (box (heap st1 ! cell_new res)) + box_b (box (heap st1 ! p))) / 2
      \<and> box_c avg = (box_c (box (heap st1 ! cell_new res)) + box_c (box (heap st1 ! p))) / 2
      \<and> box (heap st2 ! cc) = avg
      \<and> quick_a_Cij E cell prm = calc_cij E prm st2 cc
      \<and> calls (snd (quick_a_Cij E cell prm)) = k + 2))
   \<and> (calc_cij E prm \<lparr>heap = [cell, cell], calls = 0\<rparr> 1 = (Inr r1, s1)
      \<and> calc_cij E prm s1 (cell_new r1) = (Inr r2, s2)
      \<and> vects (box (heap s2 ! cell_new r2)) = vects (box cell)
      \<and> \<not> allclose (tol prm) default_atol (vects (box (heap s1 ! cell_new r1))) (vects (box cell))
      \<and> \<not> allclose (tol prm) default_atol (vects (box cell)) (vects (box (heap s1 ! cell_new r1)))
      \<and> \<not> box_diverged prm (box cell) (box (heap s1 ! cell_new r1))
      \<and> ecoh r1 \<noteq> 0 \<and> 0 \<le> tol prm \<longrightarrow>
    calls (snd (quick_a_Cij E cell prm)) = 3
    \<and> quick_a_Cij E cell prm =
        calc_cij E prm
          (box_set s2 (cell_new r1)
             (vects (average_box (box (heap s2 ! cell_new r2)) (box cell)))) (cell_new r1))"
proof -
  have 1: "(let avg = average_box (box (heap st1 ! cell_new res)) (box (heap st1 ! p));
         st2 = box_set st1 cc (vects avg)
     in box_a avg = (box_a (box (heap st1 ! cell_new res)) + box_a (box (heap st1 ! p))) / 2
      \<and> box_b avg = (box_b (box (heap st1 ! cell_new res)) + box_b (box (heap st1 ! p))) / 2
      \<and> box_c avg = (box_c (box (heap st1 ! cell_new res)) + box_c (box (heap st1 ! p))) / 2
      \<and> box (heap st2 ! cc) = avg
      \<and> quick_a_Cij E cell prm = calc_cij E prm st2 cc
      \<and> calls (snd (quick_a_Cij E cell prm)) = k + 2)"
    if r: "reached E cell prm k = Some (cc, Some p, st)" and k: "k < 100"
      and c: "calc_cij E prm st cc = (Inr res, st1)"
      and a: "\<not> test_A prm st1 res cc" and b: "test_B prm st1 res (Some p)"
    using pass_oscillation[OF r k c a b]
    by (simp add: Let_def box_a_average box_set_vects_box)
  have 2: "calls (snd (quick_a_Cij E cell prm)) = 3
    \<and> quick_a_Cij E cell prm =
        calc_cij E prm
          (box_set s2 (cell_new r1)
             (vects (average_box (box (heap s2 ! cell_new r2)) (box cell)))) (cell_new r1)"
    if "calc_cij E prm \<lparr>heap = [cell, cell], calls = 0\<rparr> 1 = (Inr r1, s1)"
      "calc_cij E prm s1 (cell_new r1) = (Inr r2, s2)"
      "vects (box (heap s2 ! cell_new r2)) = vects (box cell)"
      "\<not> allclose (tol prm) default_atol (vects (box (heap s1 ! cell_new r1))) (vects (box cell))"
      "\<not> allclose (tol prm) default_atol (vects (box cell)) (vects (box (heap s1 ! cell_new r1)))"
      "\<not> box_diverged prm (box cell) (box (heap s1 ! cell_new r1))"
      "ecoh r1 \<noteq> 0" "0 \<le> tol prm"
    using two_cycle[OF that] by simp
  from 1 2 show ?thesis by blast
qed

text \<open>
  C6. Where the strains are not zero, so that the raw matrix is one of real numbers:
  \<open>calc_cij\<close> raises when the symmetrised matrix is all zero (and whenever it passes
  \<open>np.allclose(C.Cij, 0.0)\<close>), it raises when the inversion raises (the zero-matrix
  error when the matrix also passes that test, \<open>singular C\<close> otherwise), and it raises
  when one of the new edges, computed with a divisor that is not zero, is \<open><= 0\<close>. An
  exception of \<open>calc_cij\<close>, in the call at the head of a pass or in the re-evaluation of
  the averaging branch, leaves \<open>quick_a_Cij\<close> as it is, with no further call.
\<close>

theorem evaluator_errors:
  "(run E (calls st) (heap st ! p) = Inr d \<and> thermo_complete d
      \<and> raw_cij (p_unit E) d = Some raw \<longrightarrow>
      (all_zero (symmetrize raw) \<longrightarrow> fst (calc_cij E prm st p) = Inl ZeroElasticConstants)
    \<and> (allclose_zero (symmetrize raw) \<longrightarrow>
         fst (calc_cij E prm st p) = Inl ZeroElasticConstants)
    \<and> (Sij E (symmetrize raw) = None \<longrightarrow>
         fst (calc_cij E prm st p)
           = Inl (if allclose_zero (symmetrize raw) then ZeroElasticConstants else SingularC))
    \<and> (\<not> allclose_zero (symmetrize raw) \<and> Sij E (symmetrize raw) = Some S
         \<and> (new_dim S 0 (- (Pxx d ! 0 * p_unit E) + p_xx prm)
               (- (Pyy d ! 0 * p_unit E) + p_yy prm) (- (Pzz d ! 0 * p_unit E) + p_zz prm)
               (box_a (box (heap st ! p))) = Some l
            \<or> new_dim S 1 (- (Pxx d ! 0 * p_unit E) + p_xx prm)
               (- (Pyy d ! 0 * p_unit E) + p_yy prm) (- (Pzz d ! 0 * p_unit E) + p_zz prm)
               (box_b (box (heap st ! p))) = Some l
            \<or> new_dim S 2 (- (Pxx d ! 0 * p_unit E) + p_xx prm)
               (- (Pyy d ! 0 * p_unit E) + p_yy prm) (- (Pzz d ! 0 * p_unit E) + p_zz prm)
               (box_c (box (heap st ! p))) = Some l)
         \<and> l \<le> 0 \<longrightarrow>
         fst (calc_cij E prm st p) = Inl NonPositiveBox))
   \<and> (reached E cell prm k = Some (cc, co, st') \<and> k < 100
        \<and> calc_cij E prm st' cc = (Inl e, st1) \<and> e \<noteq> NonFinite \<longrightarrow>
      quick_a_Cij E cell prm = (Inl e, st1) \<and> calls st1 = k + 1)
   \<and> (reached E cell prm k = Some (cc, co, st') \<and> k < 100
        \<and> calc_cij E prm st' cc = (Inr res, st2)
        \<and> \<not> test_A prm st2 res cc \<and> test_B prm st2 res co
        \<and> calc_cij E prm
             (box_set st2 cc (vects (average_box (box (heap st2 ! cell_new res))
                                       (box (heap st2 ! the co))))) cc = (Inl e', st3)
        \<and> e' \<noteq> NonFinite \<longrightarrow>
      quick_a_Cij E cell prm = (Inl e', st3) \<and> calls st3 = k + 2)"
proof -
  have 0: "all_zero (symmetrize raw) \<longrightarrow> fst (calc_cij E prm st p) = Inl ZeroElasticConstants"
    if "run E (calls st) (heap st ! p) = Inr d" "thermo_complete d"
      "raw_cij (p_unit E) d = Some raw"
    using calc_cij_raises(1)[OF that] all_zero_allclose_zero by blast
  have 1: "allclose_zero (symmetrize raw) \<longrightarrow>
         fst (calc_cij E prm st p) = Inl ZeroElasticConstants"
    if "run E (calls st) (heap st ! p) = Inr d" "thermo_complete d"
      "raw_cij (p_unit E) d = Some raw"
    using calc_cij_raises(1)[OF that] by blast
  have 2: "Sij E (symmetrize raw) = None \<longrightarrow>
         fst (calc_cij E prm st p)
           = Inl (if allclose_zero (symmetrize raw) then ZeroElasticConstants else SingularC)"
    if "run E (calls st) (heap st ! p) = Inr d" "thermo_complete d"
      "raw_cij (p_unit E) d = Some raw"
    using calc_cij_raises(1,2)[OF that] by simp
  have 3: "\<not> allclose_zero (symmetrize raw) \<and> Sij E (symmetrize raw) = Some S
         \<and> (new_dim S 0 (- (Pxx d ! 0 * p_unit E) + p_xx prm)
               (- (Pyy d ! 0 * p_unit E) + p_yy prm) (- (Pzz d ! 0 * p_unit E) + p_zz prm)
               (box_a (box (heap st ! p))) = Some l
            \<or> new_dim S 1 (- (Pxx d ! 0 * p_unit E) + p_xx prm)
               (- (Pyy d ! 0 * p_unit E) + p_yy prm) (- (Pzz d ! 0 * p_unit E) + p_zz prm)
               (box_b (box (heap st ! p))) = Some l
            \<or> new_dim S 2 (- (Pxx d ! 0 * p_unit E) + p_xx prm)
               (- (Pyy d ! 0 * p_unit E) + p_yy prm) (- (Pzz d ! 0 * p_unit E) + p_zz prm)
               (box_c (box (heap st ! p))) = Some l)
         \<and> l \<le> 0 \<longrightarrow>
         fst (calc_cij E prm st p) = Inl NonPositiveBox"
    if "run E (calls st) (heap st ! p) = Inr d" "thermo_complete d"
      "raw_cij (p_unit E) d = Some raw"
    using calc_cij_raises(3)[OF that, of S prm l] by blast
  have 4: "quick_a_Cij E cell prm = (Inl e, st1) \<and> calls st1 = k + 1"
    if "reached E cell prm k = Some (cc, co, st')" "k < 100"
      "calc_cij E prm st' cc = (Inl e, st1)"
    using pass_evaluator_error[OF that] by simp
  have 5: "quick_a_Cij E cell prm = (Inl e', st3) \<and> calls st3 = k + 2"
    if r: "reached E cell prm k = Some (cc, co, st')" and k: "k < 100"
      and c: "calc_cij E prm st' cc = (Inr res, st2)"
      and a: "\<not> test_A prm st2 res cc" and b: "test_B prm st2 res co"
      and f: "calc_cij E prm
             (box_set st2 cc (vects (average_box (box (heap st2 ! cell_new res))
                                       (box (heap st2 ! the co))))) cc = (Inl e', st3)"
    using pass_oscillation(1,2)[OF r k c a b] f by simp
  from 0 1 2 3 4 5 show ?thesis by blast
qed

text \<open>
  C9, as amended. \<open>calc_cij\<close> changes no system that exists and returns its candidate at
  a fresh address; the system \<open>quick_a_Cij\<close> was called with is the same when it ends;
  a pass of the loop changes no existing system other than \<open>cell_current\<close>, and none at
  all when the loop goes on. The averaging branch does overwrite the box of
  \<open>cell_current\<close> in place, by \<open>cell_current.box_set(vects=box.vects, scale=True)\<close>.
\<close>

theorem store_discipline:
  "(calc_cij E prm st p = (r, st1) \<longrightarrow> unchanged st st1)
   \<and> (calc_cij E prm st p = (Inr res, st1) \<longrightarrow>
        cell_new res = length (heap st) \<and> length (heap st1) = Suc (length (heap st)))
   \<and> heap (snd (quick_a_Cij E cell prm)) ! 0 = cell
   \<and> (cycle_body E prm c0 cc co st = (r', st2) \<longrightarrow>
        (\<forall>q < length (heap st). q \<noteq> cc \<longrightarrow> heap st2 ! q = heap st ! q))
   \<and> (cycle_body E prm c0 cc co st = (Continue cn co', st2) \<longrightarrow> unchanged st st2)"
proof -
  have 1: "unchanged st st1" if "calc_cij E prm st p = (r, st1)"
    using that by (rule calc_cij_unchanged)
  have 2: "cell_new res = length (heap st) \<and> length (heap st1) = Suc (length (heap st))"
    if "calc_cij E prm st p = (Inr res, st1)"
    using calc_cij_Inr_heap[OF that] by auto
  have 3: "\<forall>q < length (heap st). q \<noteq> cc \<longrightarrow> heap st2 ! q = heap st ! q"
    if "cycle_body E prm c0 cc co st = (r', st2)"
    using cycle_body_heap[OF that] by blast
  have 4: "unchanged st st2" if "cycle_body E prm c0 cc co st = (Continue cn co', st2)"
    using that by (rule cycle_body_Continue_unchanged)
  from 1 2 3 4 quick_a_Cij_caller_cell[of E cell prm] show ?thesis
    by blast
qed

subsection \<open>Concrete runs\<close>

lemma diag_box_dims:
  "box_a \<lparr>vects = ((x, 0, 0), r1, r2)\<rparr> = \<bar>x\<bar>"
  "box_b \<lparr>vects = (r0, (0, y, 0), r2)\<rparr> = \<bar>y\<bar>"
  "box_c \<lparr>vects = (r0, r1, (0, 0, z))\<rparr> = \<bar>z\<bar>"
  by (simp_all add: box_a_def box_b_def box_c_def vec_len_def)

lemma iterate_numeral:
  "iterate E prm c (numeral n) v = iterate E prm c (Suc (pred_numeral n)) v"
  by (simp add: numeral_eq_Suc)

lemma cycles_numeral:
  "cycles E prm c (numeral n) cc co st = cycles E prm c (Suc (pred_numeral n)) cc co st"
  by (simp add: numeral_eq_Suc)

lemmas run_simps =
  calc_cij_scripted_proj cycle_body_tests test_A_def test_B_def box_diverged_def diverged_def
  allclose_def allclose_vec_def isclose_def default_atol_def default_params_def cube_def
  Box_abc_def diag_box_dims box_set_vects_def average_box_def box_set_def
  to_cube_def alternating_def cycling_def quick_a_Cij_start start_eq reached_def
  eval_nat_numeral

lemma calc_cij_cycling:
  assumes "x = 3 \<or> x = 4 \<or> x = 5" and "heap st ! cc = cube x"
  shows "calc_cij (scripted cycling) default_params st cc =
    (Inr \<lparr>elastic_C = ident6,
          stress = ((x / (if x = 5 then 3 else x + 1) - 1, 0, 0),
                    (0, x / (if x = 5 then 3 else x + 1) - 1, 0),
                    (0, 0, x / (if x = 5 then 3 else x + 1) - 1)),
          ecoh = - 1, cell_new = length (heap st)\<rparr>,
     st\<lparr>heap := heap st @ [cube (if x = 5 then 3 else x + 1)], calls := Suc (calls st)\<rparr>)"
  using assms by (auto simp add: run_simps)

lemma cycling_pass:
  assumes "cycling_inv (cc, co, st)"
  shows "\<exists>st'. cycle_body (scripted cycling) default_params 0 cc co st
                 = (Continue (length (heap st)) cc, st')
              \<and> cycling_inv (length (heap st), Some cc, st')"
proof -
  from assms obtain x where x: "x = 3 \<or> x = 4 \<or> x = 5" and c: "0 < cc" "cc < length (heap st)"
    and h: "heap st ! 0 = cube 3" "heap st ! cc = cube x"
    and o: "case co of None \<Rightarrow> True
               | Some p \<Rightarrow> p < length (heap st)
                   \<and> heap st ! p = cube (if x = 3 then 5 else x - 1)"
    by (auto simp add: cycling_inv_def)
  let ?st' = "st\<lparr>heap := heap st @ [cube (if x = 5 then 3 else x + 1)], calls := Suc (calls st)\<rparr>"
  let ?R = "\<lparr>elastic_C = ident6,
          stress = ((x / (if x = 5 then 3 else x + 1) - 1, 0, 0),
                    (0, x / (if x = 5 then 3 else x + 1) - 1, 0),
                    (0, 0, x / (if x = 5 then 3 else x + 1) - 1)),
          ecoh = - 1, cell_new = length (heap st)\<rparr>"
  have e: "calc_cij (scripted cycling) default_params st cc = (Inr ?R, ?st')"
    using x h(2) by (rule calc_cij_cycling)
  have ta: "\<not> test_A default_params ?st' ?R cc"
    using x c h
    by (auto simp add: nth_append test_A_def allclose_def allclose_vec_def isclose_def
        default_atol_def default_params_def cube_def Box_abc_def)
  have tb: "\<not> test_B default_params ?st' ?R co"
    using x c h o
    by (auto simp add: nth_append test_B_def allclose_def allclose_vec_def isclose_def
        default_atol_def default_params_def cube_def Box_abc_def split: option.splits)
  have td: "\<not> box_diverged default_params (box (heap ?st' ! 0)) (box (heap ?st' ! cell_new ?R))"
    using x c h
    by (auto simp add: nth_append box_diverged_def diverged_def default_params_def cube_def
        Box_abc_def diag_box_dims)
  have b: "cycle_body (scripted cycling) default_params 0 cc co st
                 = (Continue (length (heap st)) cc, ?st')"
    using ta tb td by (simp add: cycle_body_tests e)
  have "cycling_inv (length (heap st), Some cc, ?st')"
    using x c h unfolding cycling_inv_def
    by (auto simp add: nth_append intro!: exI[of _ "if x = 5 then 3 else x + 1"])
  with b show ?thesis by blast
qed

lemma cycling_iterate:
  "cycling_inv v \<Longrightarrow> iterate (scripted cycling) default_params 0 k v \<noteq> None"
proof (induction k arbitrary: v)
  case 0
  then show ?case by simp
next
  case (Suc k)
  obtain cc co st where v: "v = (cc, co, st)" by (cases v)
  from cycling_pass[of cc co st] Suc.prems obtain st' where
    b: "cycle_body (scripted cycling) default_params 0 cc co st
                 = (Continue (length (heap st)) cc, st')"
    and i: "cycling_inv (length (heap st), Some cc, st')"
    unfolding v by blast
  from Suc.IH[OF i] b show ?case unfolding v by simp
qed

lemma cycling_reached: "reached (scripted cycling) (cube 3) default_params k \<noteq> None"
  unfolding reached_def
  by (rule cycling_iterate) (auto simp add: cycling_inv_def start_eq intro!: exI[of _ 3])

lemmas run_simps2 = run_simps drifting_def

text \<open>A run that converges at once.\<close>

theorem single_point_convergence_witness:
  "calc_cij (scripted (to_cube 3 (- 1))) default_params \<lparr>heap = [cube 3, cube 3], calls = 0\<rparr> 1
     = (Inr \<lparr>elastic_C = ident6, stress = ((0, 0, 0), (0, 0, 0), (0, 0, 0)), ecoh = - 1,
             cell_new = 2\<rparr>,
        \<lparr>heap = [cube 3, cube 3, cube 3], calls = 1\<rparr>)
   \<and> allclose (tol default_params) default_atol (vects (box (cube 3))) (vects (box (cube 3)))
   \<and> quick_a_Cij (scripted (to_cube 3 (- 1))) (cube 3) default_params
     = (Inr \<lparr>elastic_C = ident6, stress = ((0, 0, 0), (0, 0, 0), (0, 0, 0)), ecoh = - 1,
             cell_new = 2\<rparr>,
        \<lparr>heap = [cube 3, cube 3, cube 3], calls = 1\<rparr>)"
proof -
  let ?R = "\<lparr>elastic_C = ident6, stress = ((0, 0, 0), (0, 0, 0), (0, 0, 0)), ecoh = - 1,
             cell_new = 2\<rparr>"
  let ?S = "\<lparr>heap = [cube 3, cube 3, cube 3 :: unit System], calls = 1\<rparr>"
  have h1: "calc_cij (scripted (to_cube 3 (- 1))) default_params
              \<lparr>heap = [cube 3, cube 3], calls = 0\<rparr> 1 = (Inr ?R, ?S)"
    by (simp add: run_simps)
  have a: "allclose (tol default_params) default_atol (vects (box (cube 3))) (vects (box (cube 3)))"
    by (simp add: run_simps)
  then have h2: "allclose (tol default_params) default_atol
                   (vects (box (heap ?S ! cell_new ?R))) (vects (box (cube 3)))"
    by simp
  from single_point_convergence[OF h1 h2] h1 a show ?thesis
    by simp
qed

text \<open>
  The evaluation reports the cohesive energy \<open>0\<close> and the box it was given:
  \<open>quick_a_Cij\<close> returns that result and raises nothing.
\<close>

theorem zero_energy_converges:
  "calc_cij (scripted (to_cube 3 0)) default_params \<lparr>heap = [cube 3, cube 3], calls = 0\<rparr> 1
     = (Inr \<lparr>elastic_C = ident6, stress = ((0, 0, 0), (0, 0, 0), (0, 0, 0)), ecoh = 0,
             cell_new = 2\<rparr>,
        \<lparr>heap = [cube 3, cube 3, cube 3], calls = 1\<rparr>)
   \<and> quick_a_Cij (scripted (to_cube 3 0)) (cube 3) default_params
     = (Inr \<lparr>elastic_C = ident6, stress = ((0, 0, 0), (0, 0, 0), (0, 0, 0)), ecoh = 0,
             cell_new = 2\<rparr>,
        \<lparr>heap = [cube 3, cube 3, cube 3], calls = 1\<rparr>)"
  by (simp add: run_simps)

text \<open>The evaluation reports the energy \<open>0\<close> and the cube of edge 4.\<close>

theorem zero_energy_divergence_witness:
  "reached (scripted (to_cube 4 0)) (cube 3) default_params 0
     = Some (1, None, \<lparr>heap = [cube 3, cube 3], calls = 0\<rparr>)
   \<and> calc_cij (scripted (to_cube 4 0)) default_params \<lparr>heap = [cube 3, cube 3], calls = 0\<rparr> 1
     = (Inr \<lparr>elastic_C = ident6,
             stress = ((- (1 / 4), 0, 0), (0, - (1 / 4), 0), (0, 0, - (1 / 4))), ecoh = 0,
             cell_new = 2\<rparr>,
        \<lparr>heap = [cube 3, cube 3, cube 4], calls = 1\<rparr>)
   \<and> quick_a_Cij (scripted (to_cube 4 0)) (cube 3) default_params
     = (Inl DivergenceEcoh, \<lparr>heap = [cube 3, cube 3, cube 4], calls = 1\<rparr>)"
proof -
  let ?E = "scripted (to_cube 4 0)"
  let ?R = "\<lparr>elastic_C = ident6,
             stress = ((- (1 / 4), 0, 0), (0, - (1 / 4), 0), (0, 0, - (1 / 4))), ecoh = 0,
             cell_new = 2\<rparr>"
  let ?S = "\<lparr>heap = [cube 3, cube 3, cube 4 :: unit System], calls = 1\<rparr>"
  have r: "reached ?E (cube 3) default_params 0
             = Some (1, None, \<lparr>heap = [cube 3, cube 3], calls = 0\<rparr>)"
    by (rule reached_0)
  have k: "(0::nat) < 100" by simp
  have c: "calc_cij ?E default_params \<lparr>heap = [cube 3, cube 3], calls = 0\<rparr> 1 = (Inr ?R, ?S)"
    by (simp add: run_simps)
  have a: "\<not> test_A default_params ?S ?R 1"
    by (simp add: run_simps)
  have b: "\<not> test_B default_params ?S ?R None"
    by (simp add: run_simps)
  have d: "\<not> box_diverged default_params (box (cube 3)) (box (heap ?S ! cell_new ?R))"
    by (simp add: run_simps)
  have e: "ecoh ?R = 0" by simp
  from zero_energy_divergence[OF r k c a b e] d r c show ?thesis
    by simp
qed

text \<open>The script that goes round three cubes never converges.\<close>

theorem non_convergence_witness:
  "reached (scripted cycling) (cube 3) default_params 100 \<noteq> None
   \<and> fst (quick_a_Cij (scripted cycling) (cube 3) default_params) = Inl NonConvergence
   \<and> calls (snd (quick_a_Cij (scripted cycling) (cube 3) default_params)) = 100"
  using non_convergence[of "scripted cycling" "cube 3" default_params]
    cycling_reached[of 100]
  by blast

text \<open>
  The edge 10 is within a factor 3 of the current edge 8, and not of the initial edge 3.
\<close>

theorem box_divergence_witness:
  "reached (scripted drifting) (cube 3) default_params 1
     = Some (2, Some 1, \<lparr>heap = [cube 3, cube 3, cube 8], calls = 1\<rparr>)
   \<and> calc_cij (scripted drifting) default_params \<lparr>heap = [cube 3, cube 3, cube 8], calls = 1\<rparr> 2
     = (Inr \<lparr>elastic_C = ident6,
             stress = ((- (1 / 5), 0, 0), (0, - (1 / 5), 0), (0, 0, - (1 / 5))), ecoh = - 1,
             cell_new = 3\<rparr>,
        \<lparr>heap = [cube 3, cube 3, cube 8, cube 10], calls = 2\<rparr>)
   \<and> \<not> diverged (diverge_scale default_params) 8 10
   \<and> diverged (diverge_scale default_params) 3 10
   \<and> quick_a_Cij (scripted drifting) (cube 3) default_params
     = (Inl DivergenceBox, \<lparr>heap = [cube 3, cube 3, cube 8, cube 10], calls = 2\<rparr>)"
proof -
  let ?E = "scripted drifting"
  let ?st = "\<lparr>heap = [cube 3, cube 3, cube 8 :: unit System], calls = 1\<rparr>"
  let ?R = "\<lparr>elastic_C = ident6,
             stress = ((- (1 / 5), 0, 0), (0, - (1 / 5), 0), (0, 0, - (1 / 5))), ecoh = - 1,
             cell_new = 3\<rparr>"
  let ?S = "\<lparr>heap = [cube 3, cube 3, cube 8, cube 10 :: unit System], calls = 2\<rparr>"
  have r: "reached ?E (cube 3) default_params 1 = Some (2, Some 1, ?st)"
    by (simp add: run_simps2)
  have k: "(1::nat) < 100" by simp
  have c: "calc_cij ?E default_params ?st 2 = (Inr ?R, ?S)"
    by (simp add: run_simps2)
  have a: "\<not> test_A default_params ?S ?R 2"
    by (simp add: run_simps2)
  have b: "\<not> test_B default_params ?S ?R (Some 1)"
    by (simp add: run_simps2)
  have d: "box_diverged default_params (box (cube 3)) (box (heap ?S ! cell_new ?R))"
    by (simp add: run_simps2)
  have n: "\<not> diverged (diverge_scale default_params) 8 10"
    "diverged (diverge_scale default_params) 3 10"
    by (simp_all add: run_simps2)
  from box_divergence[OF r k c a b d] r c n show ?thesis
    by simp
qed

text \<open>The alternating script takes three evaluations.\<close>

theorem evaluator_calls_bound_witness:
  "calls (snd (quick_a_Cij (scripted alternating) (cube 3) default_params)) = 3
   \<and> calls (snd (quick_a_Cij (scripted alternating) (cube 3) default_params)) \<le> 101"
proof -
  have "calls (snd (quick_a_Cij (scripted alternating) (cube 3) default_params)) = 3"
    by (simp add: run_simps)
  with evaluator_calls_bound[of "scripted alternating" "cube 3" default_params]
  show ?thesis by blast
qed

text \<open>From the cube of edge 3 to the cube of edge 4.\<close>

theorem new_dimension_formula_witness:
  "calc_cij (scripted (to_cube 4 (- 1))) default_params \<lparr>heap = [cube 3, cube 3], calls = 0\<rparr> 1
     = (Inr \<lparr>elastic_C = ident6,
             stress = ((- (1 / 4), 0, 0), (0, - (1 / 4), 0), (0, 0, - (1 / 4))), ecoh = - 1,
             cell_new = 2\<rparr>,
        \<lparr>heap = [cube 3, cube 3, cube 4], calls = 1\<rparr>)
   \<and> run (scripted (to_cube 4 (- 1))) 0 (cube 3)
     = Inr (probe_thermo (1 / 4) (1 / 4) (1 / 4) (- 1))
   \<and> Sij (scripted (to_cube 4 (- 1))) ident6 = Some ident6
   \<and> box_a (box (cube 4)) = 3 / (1 * (- (1 / 4 * 1) + 0) + 0 * (- (1 / 4 * 1) + 0)
                                   + 0 * (- (1 / 4 * 1) + 0) + 1)"
proof -
  let ?E = "scripted (to_cube 4 (- 1)) :: unit env"
  let ?st = "\<lparr>heap = [cube 3, cube 3 :: unit System], calls = 0\<rparr>"
  let ?R = "\<lparr>elastic_C = ident6,
             stress = ((- (1 / 4), 0, 0), (0, - (1 / 4), 0), (0, 0, - (1 / 4))), ecoh = - 1,
             cell_new = 2\<rparr>"
  let ?S = "\<lparr>heap = [cube 3, cube 3, cube 4 :: unit System], calls = 1\<rparr>"
  have c: "calc_cij ?E default_params ?st 1 = (Inr ?R, ?S)"
    by (simp add: run_simps)
  have d: "run ?E 0 (cube 3) = Inr (probe_thermo (1 / 4) (1 / 4) (1 / 4) (- 1))"
    by (simp add: scripted_def scripted_run_def run_simps)
  then have d': "run ?E (calls ?st) (heap ?st ! 1) = Inr (probe_thermo (1 / 4) (1 / 4) (1 / 4) (- 1))"
    by simp
  have s: "Sij ?E ident6 = Some ident6"
    by (simp add: scripted_def diag_inverse_ident6)
  then have s': "Sij ?E (elastic_C ?R) = Some ident6"
    by simp
  from new_dimension_formula[OF c d' s'] have
    "box_a (box (cube 4)) = 3 / (1 * (- (1 / 4 * 1) + 0) + 0 * (- (1 / 4 * 1) + 0)
                                   + 0 * (- (1 / 4 * 1) + 0) + 1)"
    by (simp add: Let_def probe_thermo_def pulse13_def ident6_def scripted_def
        default_params_def cube_def Box_abc_def diag_box_dims)
  with c d s show ?thesis
    by blast
qed

text \<open>
  Under the alternating script the system at address 2, the \<open>cell_new\<close> of the first
  evaluation and the \<open>cell_current\<close> of the second pass, has the edge 4 after the first
  pass and the edge 3 when \<open>quick_a_Cij\<close> returns.
\<close>

theorem current_cell_overwritten:
  "reached (scripted alternating) (cube 3) default_params 1
     = Some (2, Some 1, \<lparr>heap = [cube 3, cube 3, cube 4], calls = 1\<rparr>)
   \<and> heap (snd (quick_a_Cij (scripted alternating) (cube 3) default_params)) ! 2 = cube 3
   \<and> \<not> unchanged \<lparr>heap = [cube 3, cube 3, cube 4], calls = 1\<rparr>
          (snd (quick_a_Cij (scripted alternating) (cube 3) default_params))"
  by (simp add: run_simps unchanged_def)

text \<open>The alternating script: detected in the second pass, three evaluations.\<close>

theorem oscillation_averaging_witness:
  "reached (scripted alternating) (cube 3) default_params 1
     = Some (2, Some 1, \<lparr>heap = [cube 3, cube 3, cube 4], calls = 1\<rparr>)
   \<and> calc_cij (scripted alternating) default_params
        \<lparr>heap = [cube 3, cube 3, cube 4], calls = 1\<rparr> 2
     = (Inr \<lparr>elastic_C = ident6, stress = ((1 / 3, 0, 0), (0, 1 / 3, 0), (0, 0, 1 / 3)),
             ecoh = - 1, cell_new = 3\<rparr>,
        \<lparr>heap = [cube 3, cube 3, cube 4, cube 3], calls = 2\<rparr>)
   \<and> average_box (box (cube 3)) (box (cube 3)) = box (cube 3)
   \<and> quick_a_Cij (scripted alternating) (cube 3) default_params
     = calc_cij (scripted alternating) default_params
         \<lparr>heap = [cube 3, cube 3, cube 3, cube 3], calls = 2\<rparr> 2
   \<and> calls (snd (quick_a_Cij (scripted alternating) (cube 3) default_params)) = 3"
proof -
  let ?E = "scripted alternating"
  let ?s1 = "\<lparr>heap = [cube 3, cube 3, cube 4 :: unit System], calls = 1\<rparr>"
  let ?r1 = "\<lparr>elastic_C = ident6,
              stress = ((- (1 / 4), 0, 0), (0, - (1 / 4), 0), (0, 0, - (1 / 4))),
              ecoh = - 1, cell_new = 2\<rparr>"
  let ?r2 = "\<lparr>elastic_C = ident6, stress = ((1 / 3, 0, 0), (0, 1 / 3, 0), (0, 0, 1 / 3)),
              ecoh = - 1, cell_new = 3\<rparr>"
  let ?s2 = "\<lparr>heap = [cube 3, cube 3, cube 4, cube 3 :: unit System], calls = 2\<rparr>"
  have r: "reached ?E (cube 3) default_params 1 = Some (2, Some 1, ?s1)"
    by (simp add: run_simps)
  have c1: "calc_cij ?E default_params \<lparr>heap = [cube 3, cube 3], calls = 0\<rparr> 1 = (Inr ?r1, ?s1)"
    by (simp add: run_simps)
  have c2: "calc_cij ?E default_params ?s1 2 = (Inr ?r2, ?s2)"
    by (simp add: run_simps)
  have a: "\<not> test_A default_params ?s2 ?r2 2"
    by (simp add: run_simps)
  have b: "test_B default_params ?s2 ?r2 (Some 1)"
    by (simp add: run_simps)
  have avg: "average_box (box (cube 3)) (box (cube 3)) = box (cube 3)"
    by (simp add: run_simps)
  have st2: "box_set ?s2 2 (vects (box (cube 3)))
             = \<lparr>heap = [cube 3, cube 3, cube 3, cube 3], calls = 2\<rparr>"
    by (simp add: run_simps)
  have ret: "vects (box (heap ?s2 ! cell_new ?r2)) = vects (box (cube 3))"
    by simp
  have ab: "\<not> allclose (tol default_params) default_atol
               (vects (box (heap ?s1 ! cell_new ?r1))) (vects (box (cube 3)))"
    by (simp add: run_simps)
  have ba: "\<not> allclose (tol default_params) default_atol
               (vects (box (cube 3))) (vects (box (heap ?s1 ! cell_new ?r1)))"
    by (simp add: run_simps)
  have d: "\<not> box_diverged default_params (box (cube 3)) (box (heap ?s1 ! cell_new ?r1))"
    by (simp add: run_simps)
  have e: "ecoh ?r1 \<noteq> 0" "0 \<le> tol default_params"
    by (simp_all add: default_params_def)
  note T = oscillation_averaging[where E = "?E" and cell = "cube 3" and prm = default_params
      and k = 1 and cc = 2 and p = 1 and st = "?s1" and res = "?r2" and ?st1.0 = "?s2"
      and ?r1.0 = "?r1" and ?s1.0 = "?s1" and ?r2.0 = "?r2" and ?s2.0 = "?s2"]
  have h1: "reached ?E (cube 3) default_params 1 = Some (2, Some 1, ?s1) \<and> (1::nat) < 100
      \<and> calc_cij ?E default_params ?s1 2 = (Inr ?r2, ?s2)
      \<and> \<not> test_A default_params ?s2 ?r2 2 \<and> test_B default_params ?s2 ?r2 (Some 1)"
    using r c2 a b by simp
  from T[THEN conjunct1, THEN mp, OF h1]
  have q: "quick_a_Cij ?E (cube 3) default_params
             = calc_cij ?E default_params \<lparr>heap = [cube 3, cube 3, cube 3, cube 3], calls = 2\<rparr> 2"
    by (simp add: Let_def avg st2)
  have h2: "calc_cij ?E default_params \<lparr>heap = [cube 3, cube 3], calls = 0\<rparr> 1 = (Inr ?r1, ?s1)
      \<and> calc_cij ?E default_params ?s1 (cell_new ?r1) = (Inr ?r2, ?s2)
      \<and> vects (box (heap ?s2 ! cell_new ?r2)) = vects (box (cube 3))
      \<and> \<not> allclose (tol default_params) default_atol
            (vects (box (heap ?s1 ! cell_new ?r1))) (vects (box (cube 3)))
      \<and> \<not> allclose (tol default_params) default_atol
            (vects (box (cube 3))) (vects (box (heap ?s1 ! cell_new ?r1)))
      \<and> \<not> box_diverged default_params (box (cube 3)) (box (heap ?s1 ! cell_new ?r1))
      \<and> ecoh ?r1 \<noteq> 0 \<and> 0 \<le> tol default_params"
    using c1 c2 ret ab ba d e by simp
  from T[THEN conjunct2, THEN mp, OF h2]
  have n: "calls (snd (quick_a_Cij ?E (cube 3) default_params)) = 3"
    by blast
  from r c2 avg q n show ?thesis
    by blast
qed

lemma calc_cij_env_cong:
  assumes "run E (calls st) (heap st ! p) = run E' (calls st) (heap st ! p)"
    and "Sij E = Sij E'" and "p_unit E = p_unit E'" and "e_unit E = e_unit E'"
  shows "calc_cij E prm st p = calc_cij E' prm st p"
  by (simp only: calc_cij_def assms)

lemma calc_cij_run_failed:
  "run E (calls st) (heap st ! p) = Inl msg \<Longrightarrow>
     calc_cij E prm st p = (Inl (LammpsError msg), st\<lparr>calls := Suc (calls st)\<rparr>)"
  by (simp add: calc_cij_def)

lemma calc_cij_failing_at_other:
  "calls st \<noteq> m \<Longrightarrow>
     calc_cij (failing_at m) prm st p = calc_cij (scripted alternating) prm st p"
  by (rule calc_cij_env_cong) (simp_all add: failing_at_def scripted_def)

lemma calc_cij_failing_at_same:
  "calls st = m \<Longrightarrow>
     calc_cij (failing_at m) prm st p
       = (Inl (LammpsError ''no thermo data''), st\<lparr>calls := Suc (calls st)\<rparr>)"
  by (rule calc_cij_run_failed) (simp add: failing_at_def)

lemma probe_baseline:
  "Pxx (probe_thermo px py pz e) ! 0 = px" "Pyy (probe_thermo px py pz e) ! 0 = py"
  "Pzz (probe_thermo px py pz e) ! 0 = pz"
  by (simp_all add: probe_thermo_def pulse13_def)

lemma raw_cij_flat: "raw_cij 1 flat_thermo = Some (replicate 6 (replicate 6 0))"
  by (simp add: raw_cij_def upt_upto_6 flat_thermo_def strains_def delta_stress_def
      alt13_def set_in_units_def eval_nat_numeral)

lemma all_zero_flat: "all_zero (symmetrize (replicate 6 (replicate 6 0)))"
  by (simp add: symmetrize_def sym_assign_def mat_set_def upt_upto_6
      list_update_Cons_numeral all_zero_def eval_nat_numeral)

lemma thermo_complete_flat: "thermo_complete flat_thermo"
  by (simp add: thermo_complete_def flat_thermo_def alt13_def)

text \<open>One failing evaluation of each kind, and the two places an exception passes through.\<close>

theorem evaluator_errors_witness:
  "fst (calc_cij no_response default_params \<lparr>heap = [cube 3, cube 3], calls = 0\<rparr> 1)
     = Inl ZeroElasticConstants
   \<and> quick_a_Cij not_invertible (cube 3) default_params
     = (Inl SingularC, \<lparr>heap = [cube 3, cube 3], calls = 1\<rparr>)
   \<and> fst (calc_cij (scripted (to_cube (- 3) (- 1))) default_params
            \<lparr>heap = [cube 3, cube 3], calls = 0\<rparr> 1)
     = Inl NonPositiveBox
   \<and> quick_a_Cij (failing_at 2) (cube 3) default_params
     = (Inl (LammpsError ''no thermo data''),
        \<lparr>heap = [cube 3, cube 3, cube 3, cube 3], calls = 3\<rparr>)"
proof -
  let ?st = "\<lparr>heap = [cube 3, cube 3 :: unit System], calls = 0\<rparr>"
  note T = evaluator_errors
  \<comment> \<open>no elastic response\<close>
  let ?Z = "replicate 6 (replicate 6 (0::real))"
  have a1: "run no_response (calls ?st) (heap ?st ! 1) = Inr flat_thermo
            \<and> thermo_complete flat_thermo
            \<and> raw_cij (p_unit no_response) flat_thermo = Some ?Z"
    by (simp add: no_response_def thermo_complete_flat raw_cij_flat)
  have a2: "all_zero (symmetrize ?Z)"
    by (rule all_zero_flat)
  from T[where E = no_response and st = "?st" and p = 1 and d = flat_thermo and raw = "?Z"
      and prm = default_params, THEN conjunct1, THEN mp, OF a1, THEN conjunct1, THEN mp, OF a2]
  have A: "fst (calc_cij no_response default_params ?st 1) = Inl ZeroElasticConstants" .
  \<comment> \<open>the inversion raises\<close>
  let ?d = "probe_thermo (1 / 4) (1 / 4) (1 / 4) (- 1)"
  have b1: "run not_invertible (calls ?st) (heap ?st ! 1) = Inr ?d \<and> thermo_complete ?d
            \<and> raw_cij (p_unit not_invertible) ?d = Some ident6"
    by (simp add: not_invertible_def scripted_def scripted_run_def to_cube_def cube_def
        Box_abc_def diag_box_dims thermo_complete_probe raw_cij_probe)
  have b2: "Sij not_invertible (symmetrize ident6) = None"
    by (simp add: not_invertible_def scripted_def)
  from T[where E = not_invertible and st = "?st" and p = 1 and d = "?d" and raw = ident6
      and prm = default_params, THEN conjunct1, THEN mp, OF b1, THEN conjunct2, THEN conjunct2,
      THEN conjunct1, THEN mp, OF b2]
  have B: "fst (calc_cij not_invertible default_params ?st 1) = Inl SingularC"
    by (simp add: symmetrize_ident6 not_allclose_zero_ident6)
  have B': "calc_cij not_invertible default_params ?st 1
              = (Inl SingularC, \<lparr>heap = [cube 3, cube 3], calls = 1\<rparr>)"
    using B calc_cij_calls[of not_invertible default_params ?st 1]
      calc_cij_heap[of not_invertible default_params ?st 1]
    by (cases "calc_cij not_invertible default_params ?st 1")
      (auto simp add: calc_cij_def not_invertible_def scripted_def Let_def
        split: sum.splits if_splits option.splits)
  have b3: "reached not_invertible (cube 3) default_params 0 = Some (1, None, ?st)
            \<and> (0::nat) < 100
            \<and> calc_cij not_invertible default_params ?st 1
              = (Inl SingularC, \<lparr>heap = [cube 3, cube 3], calls = 1\<rparr>)
            \<and> SingularC \<noteq> NonFinite"
    using B' by (simp add: reached_0)
  from T[where E = not_invertible and cell = "cube 3" and prm = default_params and k = 0
      and cc = 1 and co = None and st' = "?st" and e = SingularC
      and ?st1.0 = "\<lparr>heap = [cube 3, cube 3], calls = 1\<rparr>",
      THEN conjunct2, THEN conjunct1, THEN mp, OF b3]
  have B'': "quick_a_Cij not_invertible (cube 3) default_params
     = (Inl SingularC, \<lparr>heap = [cube 3, cube 3], calls = 1\<rparr>)"
    by blast
  \<comment> \<open>a new edge that is not positive\<close>
  let ?E = "scripted (to_cube (- 3) (- 1)) :: unit env"
  let ?e = "probe_thermo 2 2 2 (- 1)"
  have c1: "run ?E (calls ?st) (heap ?st ! 1) = Inr ?e \<and> thermo_complete ?e
            \<and> raw_cij (p_unit ?E) ?e = Some ident6"
    by (simp add: scripted_def scripted_run_def to_cube_def cube_def
        Box_abc_def diag_box_dims thermo_complete_probe raw_cij_probe)
  have c2: "\<not> allclose_zero (symmetrize ident6)
            \<and> Sij ?E (symmetrize ident6) = Some ident6
            \<and> (new_dim ident6 0 (- (Pxx ?e ! 0 * p_unit ?E) + p_xx default_params)
               (- (Pyy ?e ! 0 * p_unit ?E) + p_yy default_params)
               (- (Pzz ?e ! 0 * p_unit ?E) + p_zz default_params)
               (box_a (box (heap ?st ! 1))) = Some (- 3)
            \<or> new_dim ident6 1 (- (Pxx ?e ! 0 * p_unit ?E) + p_xx default_params)
               (- (Pyy ?e ! 0 * p_unit ?E) + p_yy default_params)
               (- (Pzz ?e ! 0 * p_unit ?E) + p_zz default_params)
               (box_b (box (heap ?st ! 1))) = Some (- 3)
            \<or> new_dim ident6 2 (- (Pxx ?e ! 0 * p_unit ?E) + p_xx default_params)
               (- (Pyy ?e ! 0 * p_unit ?E) + p_yy default_params)
               (- (Pzz ?e ! 0 * p_unit ?E) + p_zz default_params)
               (box_c (box (heap ?st ! 1))) = Some (- 3))
            \<and> (- 3 :: real) \<le> 0"
    by (simp add: scripted_def symmetrize_ident6 not_allclose_zero_ident6
        diag_inverse_ident6 new_dim_ident6 probe_baseline default_params_def
        cube_def Box_abc_def diag_box_dims)
  from T[where E = "?E" and st = "?st" and p = 1 and d = "?e" and raw = ident6
      and S = ident6 and l = "- 3"
      and prm = default_params, THEN conjunct1, THEN mp, OF c1, THEN conjunct2, THEN conjunct2,
      THEN conjunct2, THEN mp, OF c2]
  have C: "fst (calc_cij ?E default_params ?st 1) = Inl NonPositiveBox" .
  \<comment> \<open>the run of the re-evaluation fails\<close>
  let ?F = "failing_at 2"
  let ?s1 = "\<lparr>heap = [cube 3, cube 3, cube 4 :: unit System], calls = 1\<rparr>"
  let ?r2 = "\<lparr>elastic_C = ident6, stress = ((1 / 3, 0, 0), (0, 1 / 3, 0), (0, 0, 1 / 3)),
              ecoh = - 1, cell_new = 3\<rparr>"
  let ?s2 = "\<lparr>heap = [cube 3, cube 3, cube 4, cube 3 :: unit System], calls = 2\<rparr>"
  let ?s3 = "\<lparr>heap = [cube 3, cube 3, cube 3, cube 3 :: unit System], calls = 3\<rparr>"
  have d1: "reached ?F (cube 3) default_params 1 = Some (2, Some 1, ?s1) \<and> (1::nat) < 100
        \<and> calc_cij ?F default_params ?s1 2 = (Inr ?r2, ?s2)
        \<and> \<not> test_A default_params ?s2 ?r2 2 \<and> test_B default_params ?s2 ?r2 (Some 1)
        \<and> calc_cij ?F default_params
             (box_set ?s2 2 (vects (average_box (box (heap ?s2 ! cell_new ?r2))
                                       (box (heap ?s2 ! the (Some 1)))))) 2
           = (Inl (LammpsError ''no thermo data''), ?s3)
        \<and> LammpsError ''no thermo data'' \<noteq> NonFinite"
    by (simp add: calc_cij_failing_at_other calc_cij_failing_at_same run_simps)
  from T[where E = "?F" and cell = "cube 3" and prm = default_params and k = 1
      and cc = 2 and co = "Some 1" and st' = "?s1" and res = "?r2" and ?st2.0 = "?s2"
      and e' = "LammpsError ''no thermo data''" and ?st3.0 = "?s3",
      THEN conjunct2, THEN conjunct2, THEN mp, OF d1]
  have D: "quick_a_Cij ?F (cube 3) default_params = (Inl (LammpsError ''no thermo data''), ?s3)"
    by blast
  from A B'' C D show ?thesis
    by blast
qed

text \<open>One evaluation and one pass from the start, and the caller's system at the end.\<close>

theorem store_discipline_witness:
  "calc_cij (scripted (to_cube 4 (- 1))) default_params \<lparr>heap = [cube 3, cube 3], calls = 0\<rparr> 1
     = (Inr \<lparr>elastic_C = ident6,
             stress = ((- (1 / 4), 0, 0), (0, - (1 / 4), 0), (0, 0, - (1 / 4))), ecoh = - 1,
             cell_new = 2\<rparr>,
        \<lparr>heap = [cube 3, cube 3, cube 4], calls = 1\<rparr>)
   \<and> cycle_body (scripted (to_cube 4 (- 1))) default_params 0 1 None
        \<lparr>heap = [cube 3, cube 3], calls = 0\<rparr>
     = (Continue 2 1, \<lparr>heap = [cube 3, cube 3, cube 4], calls = 1\<rparr>)
   \<and> unchanged \<lparr>heap = [cube 3, cube 3], calls = 0\<rparr>
        \<lparr>heap = [cube 3, cube 3, cube 4 :: unit System], calls = 1\<rparr>
   \<and> heap (snd (quick_a_Cij (scripted alternating) (cube 3) default_params)) ! 0 = cube 3"
proof -
  let ?E = "scripted (to_cube 4 (- 1))"
  let ?st = "\<lparr>heap = [cube 3, cube 3 :: unit System], calls = 0\<rparr>"
  let ?R = "\<lparr>elastic_C = ident6,
             stress = ((- (1 / 4), 0, 0), (0, - (1 / 4), 0), (0, 0, - (1 / 4))), ecoh = - 1,
             cell_new = 2\<rparr>"
  let ?S = "\<lparr>heap = [cube 3, cube 3, cube 4 :: unit System], calls = 1\<rparr>"
  have c: "calc_cij ?E default_params ?st 1 = (Inr ?R, ?S)"
    by (simp add: run_simps)
  have b: "cycle_body ?E default_params 0 1 None ?st = (Continue 2 1, ?S)"
    by (simp add: run_simps)
  note T = store_discipline[where E = "?E" and prm = default_params and st = "?st" and p = 1
      and r = "Inr ?R" and ?st1.0 = "?S"]
  from T[THEN conjunct1, THEN mp, OF c] have u: "unchanged ?st ?S" .
  from store_discipline[where E = "scripted alternating" and cell = "cube 3"
      and prm = default_params, THEN conjunct2, THEN conjunct2, THEN conjunct1]
  have h: "heap (snd (quick_a_Cij (scripted alternating) (cube 3) default_params)) ! 0 = cube 3" .
  from c b u h show ?thesis
    by blast
qed

text \<open>
  Four runs in which the averaging does not come about. (1) With the default
  tolerance \<open>1e-10\<close>, from the edge 3 to \<open>3 + 1.05e-8\<close> and then to \<open>3 + 2.5e-10\<close>: the
  second \<open>cell_new\<close> matches \<open>cell_old\<close> and not \<open>cell_current\<close> within the relative
  tolerance, and yet test A fires through \<open>atol\<close>, so the result of the second
  evaluation is returned. (2) To and fro between the edges 3 and 10: the first pass
  raises the divergence of the box. (3) To and fro between 3 and 4 with the energy 0:
  the first pass raises the divergence of the energy. (4) To and fro between 3 and 4
  with the tolerance \<open>-1\<close>: three passes go on and nothing is detected.
\<close>

theorem oscillation_not_averaged:
  "reached (scripted settling) (cube 3) default_params 1
     = Some (2, Some 1, \<lparr>heap = [cube 3, cube 3, cube (3 + 105 / 10 ^ 10)], calls = 1\<rparr>)
   \<and> allclose (tol default_params) 0 (vects (box (cube (3 + 25 / 10 ^ 11))))
        (vects (box (cube 3)))
   \<and> \<not> allclose (tol default_params) 0 (vects (box (cube (3 + 25 / 10 ^ 11))))
          (vects (box (cube (3 + 105 / 10 ^ 10))))
   \<and> quick_a_Cij (scripted settling) (cube 3) default_params
     = calc_cij (scripted settling) default_params
         \<lparr>heap = [cube 3, cube 3, cube (3 + 105 / 10 ^ 10)], calls = 1\<rparr> 2
   \<and> quick_a_Cij (scripted settling) (cube 3) default_params
     = (Inr \<lparr>elastic_C = ident6,
             stress = (((3 + 105 / 10 ^ 10) / (3 + 25 / 10 ^ 11) - 1, 0, 0),
                       (0, (3 + 105 / 10 ^ 10) / (3 + 25 / 10 ^ 11) - 1, 0),
                       (0, 0, (3 + 105 / 10 ^ 10) / (3 + 25 / 10 ^ 11) - 1)),
             ecoh = - 1, cell_new = 3\<rparr>,
        \<lparr>heap = [cube 3, cube 3, cube (3 + 105 / 10 ^ 10), cube (3 + 25 / 10 ^ 11)],
           calls = 2\<rparr>)
   \<and> quick_a_Cij (scripted (between 3 10 (- 1))) (cube 3) default_params
     = (Inl DivergenceBox, \<lparr>heap = [cube 3, cube 3, cube 10], calls = 1\<rparr>)
   \<and> quick_a_Cij (scripted (between 3 4 0)) (cube 3) default_params
     = (Inl DivergenceEcoh, \<lparr>heap = [cube 3, cube 3, cube 4], calls = 1\<rparr>)
   \<and> reached (scripted (between 3 4 (- 1))) (cube 3) (default_params\<lparr>tol := - 1\<rparr>) 3
     = Some (4, Some 3, \<lparr>heap = [cube 3, cube 3, cube 4, cube 3, cube 4], calls = 3\<rparr>)"
  by (simp add: run_simps settling_def between_def allclose_def allclose_vec_def isclose_def)

end
